theory Spec2Isabelle
  imports Complex_Main
begin

section \<open>JavaScript numbers\<close>

text \<open>
  The cost calculator (\<^verbatim>\<open>src/shadcn-ui/src/lib/costCalculator.ts\<close>) computes on
  JavaScript \<^verbatim>\<open>number\<close> values, which are IEEE 754 doubles. A number is modelled as
  a real, or one of the three special values of the language.
\<close>

datatype number = Fin real | PosInf | NegInf | NaN

text \<open>
  The result of an arithmetic operator is the exact result rounded to the nearest
  double, a tie going to the double with the even significand. Around a real of
  magnitude \<open>a > 0\<close> the doubles are the multiples of \<open>2 powi (exponent a - 52)\<close>,
  where \<open>exponent a\<close> is \<open>\<lfloor>log 2 a\<rfloor>\<close>, and \<open>-1022\<close> in the subnormal range. A result
  that rounds to \<open>2 powi 1024\<close> or beyond is an infinity. The sign of zero is not
  modelled (\<open>-0\<close> and \<open>0\<close> are the one value \<open>Fin 0\<close>): the two zeros differ only as
  a divisor, and the divisors of the functions below are a passenger count, the
  constants 100 and 10, and the argument \<^verbatim>\<open>fuelEfficiencyKmPerLiter\<close>. The arguments
  of the functions range over all reals, of which the doubles are a part.
\<close>

definition exponent :: "real \<Rightarrow> int" where
  "exponent a = max (- 1022) \<lfloor>log 2 a\<rfloor>"

definition rne :: "real \<Rightarrow> int" where
  \<comment> \<open>the nearest integer, a tie going to the even one\<close>
  "rne y = (let f = \<lfloor>y\<rfloor>; d = y - of_int f
            in if d < 1 / 2 then f else if 1 / 2 < d then f + 1 else if even f then f else f + 1)"

definition round_to_grid :: "real \<Rightarrow> real" where
  "round_to_grid x =
     (if x = 0 then 0
      else (let u = 2 powi (exponent \<bar>x\<bar> - 52) in of_int (rne (x / u)) * u))"

definition binary64 :: "real \<Rightarrow> number" where
  "binary64 x =
     (let r = round_to_grid x
      in if 2 powi 1024 \<le> r then PosInf else if r \<le> - (2 powi 1024) then NegInf else Fin r)"

text \<open>
  The exact operations: the special values follow the language (a division by zero
  gives an infinity or NaN, NaN is absorbing), finite values are added, multiplied
  and divided as reals.
\<close>

fun num_add :: "number \<Rightarrow> number \<Rightarrow> number" where
  "num_add (Fin a) (Fin b) = Fin (a + b)"
| "num_add NaN _ = NaN"
| "num_add _ NaN = NaN"
| "num_add PosInf NegInf = NaN"
| "num_add NegInf PosInf = NaN"
| "num_add PosInf _ = PosInf"
| "num_add _ PosInf = PosInf"
| "num_add NegInf _ = NegInf"
| "num_add _ NegInf = NegInf"

fun num_neg :: "number \<Rightarrow> number" where
  "num_neg (Fin a) = Fin (- a)"
| "num_neg PosInf = NegInf"
| "num_neg NegInf = PosInf"
| "num_neg NaN = NaN"

definition scale_inf :: "number \<Rightarrow> real \<Rightarrow> number" where
  \<comment> \<open>an infinity times a finite value: the sign rule, and NaN at zero\<close>
  "scale_inf i b = (if b = 0 then NaN else if 0 < b then i else num_neg i)"

fun num_mul :: "number \<Rightarrow> number \<Rightarrow> number" where
  "num_mul (Fin a) (Fin b) = Fin (a * b)"
| "num_mul NaN _ = NaN"
| "num_mul _ NaN = NaN"
| "num_mul PosInf (Fin b) = scale_inf PosInf b"
| "num_mul NegInf (Fin b) = scale_inf NegInf b"
| "num_mul (Fin a) PosInf = scale_inf PosInf a"
| "num_mul (Fin a) NegInf = scale_inf NegInf a"
| "num_mul PosInf PosInf = PosInf"
| "num_mul NegInf NegInf = PosInf"
| "num_mul PosInf NegInf = NegInf"
| "num_mul NegInf PosInf = NegInf"

fun num_div :: "number \<Rightarrow> number \<Rightarrow> number" where
  "num_div (Fin a) (Fin b) =
     (if b = 0 then (if a = 0 then NaN else if 0 < a then PosInf else NegInf)
      else Fin (a / b))"
| "num_div NaN _ = NaN"
| "num_div _ NaN = NaN"
| "num_div (Fin a) _ = Fin 0"
| "num_div PosInf (Fin b) = (if 0 \<le> b then PosInf else NegInf)"
| "num_div NegInf (Fin b) = (if 0 \<le> b then NegInf else PosInf)"
| "num_div _ _ = NaN"

fun Math_round :: "number \<Rightarrow> number" where
  \<comment> \<open>\<^verbatim>\<open>Math.round\<close>: the nearest integer, a tie going up\<close>
  "Math_round (Fin a) = Fin (of_int \<lfloor>a + 1 / 2\<rfloor>)"
| "Math_round x = x"

fun num_le :: "number \<Rightarrow> number \<Rightarrow> bool" where
  \<comment> \<open>the comparison \<^verbatim>\<open><=\<close>; every comparison with NaN is false\<close>
  "num_le (Fin a) (Fin b) = (a \<le> b)"
| "num_le NaN _ = False"
| "num_le _ NaN = False"
| "num_le NegInf _ = True"
| "num_le _ PosInf = True"
| "num_le _ _ = False"

fun truthy :: "number \<Rightarrow> bool" where
  \<comment> \<open>a number in a condition: zero and NaN are false\<close>
  "truthy (Fin a) = (a \<noteq> 0)"
| "truthy NaN = False"
| "truthy _ = True"

text \<open>
  The operators \<^verbatim>\<open>+\<close>, \<^verbatim>\<open>*\<close> and \<^verbatim>\<open>/\<close> of the language: the exact result, rounded
  to a double. \<^verbatim>\<open>Math.round\<close> and the comparison are exact on doubles.
\<close>

fun fl :: "number \<Rightarrow> number" where
  "fl (Fin a) = binary64 a"
| "fl x = x"

definition js_add :: "number \<Rightarrow> number \<Rightarrow> number" where
  "js_add a b = fl (num_add a b)"

definition js_mul :: "number \<Rightarrow> number \<Rightarrow> number" where
  "js_mul a b = fl (num_mul a b)"

definition js_div :: "number \<Rightarrow> number \<Rightarrow> number" where
  "js_div a b = fl (num_div a b)"

section \<open>The cost calculator\<close>

record PassengerShare =
  userId :: string
  amount :: number

record CostBreakdown =
  totalCost :: number
  costPerSeat :: number
  numberOfPassengers :: nat
  driverShare :: number
  passengerShares :: "PassengerShare list"

text \<open>
  \<^verbatim>\<open>calculateRideCost(params)\<close> destructures its parameter object; the arguments of
  the model are the destructured fields. \<^verbatim>\<open>includeDriverInSplit\<close> is optional and
  defaults to false. The branch of an empty passenger list does no arithmetic.
\<close>

definition calculateRideCost ::
  "number \<Rightarrow> string \<Rightarrow> string list \<Rightarrow> bool option \<Rightarrow> CostBreakdown" where
  "calculateRideCost total_cost driverId passengerIds includeDriverInSplit =
     (let numberOfPassengers = length passengerIds in
      if numberOfPassengers = 0 then
        \<lparr>totalCost = total_cost, costPerSeat = total_cost, numberOfPassengers = 0,
         driverShare = total_cost, passengerShares = []\<rparr>
      else
        (let (perSeat, driver) =
               (if (case includeDriverInSplit of None \<Rightarrow> False | Some b \<Rightarrow> b) then
                  (let totalParticipants = numberOfPassengers + 1;
                       c = js_div total_cost (Fin (real totalParticipants))
                   in (c, c))
                else
                  (js_div total_cost (Fin (real numberOfPassengers)), Fin 0));
             shares = map (\<lambda>u. \<lparr>userId = u,
                        amount = js_div (Math_round (js_mul perSeat (Fin 100))) (Fin 100)\<rparr>)
                        passengerIds
         in \<lparr>totalCost = total_cost,
             costPerSeat = js_div (Math_round (js_mul perSeat (Fin 100))) (Fin 100),
             numberOfPassengers = numberOfPassengers,
             driverShare = js_div (Math_round (js_mul driver (Fin 100))) (Fin 100),
             passengerShares = shares\<rparr>))"





section \<open>Rides and ride requests of the web client\<close>

text \<open>
  The types of \<^verbatim>\<open>src/shadcn-ui/src/types/index.ts\<close>. A field keeps its name; the
  name of the record is put before it where two records have a field of the same name
  (\<^verbatim>\<open>id\<close>, \<^verbatim>\<open>type\<close>, \<^verbatim>\<open>status\<close>, \<^verbatim>\<open>message\<close>, \<^verbatim>\<open>costPerSeat\<close>) or the
  field is an embedded object (\<^verbatim>\<open>ride\<close>, \<^verbatim>\<open>passenger\<close>). The string literal
  types are datatypes; the kinds of notification carry the prefix \<open>N_\<close>. Fields that
  no function below reads (coordinates, phone number, timestamps of a ride) are left
  out. A \<^verbatim>\<open>Date\<close> is its time value in milliseconds; seat counts are integers.
\<close>

datatype RideType = Offer | Request

datatype RideStatus = Active | Completed | Cancelled

datatype GenderPreference = Male | Female | Any

datatype RequestStatus = Pending | Approved | Rejected

datatype NotificationType = N_ride_request | N_ride_approved | N_ride_cancelled | N_message | N_rating

type_synonym Date = int

record User =
  User_id :: string
  firstName :: string
  lastName :: string
  email :: string
  isVerified :: bool

record Location =
  address :: string
  city :: string
  state :: string

record RidePreferences =
  smokingAllowed :: bool
  petsAllowed :: bool
  musicAllowed :: bool
  genderPreference :: GenderPreference

record Ride =
  Ride_id :: string
  driverId :: string
  Ride_type :: RideType
  fromLocation :: Location
  toLocation :: Location
  departureTime :: Date
  availableSeats :: int
  Ride_costPerSeat :: number
  description :: string
  Ride_status :: RideStatus
  preferences :: RidePreferences
  passengers :: "string list"

record RideRequest =
  RideRequest_id :: string
  passengerId :: string
  RideRequest_passenger :: User
  rideId :: string
  RideRequest_ride :: Ride
  RideRequest_status :: RequestStatus
  RideRequest_message :: string
  requestedSeats :: int
  createdAt :: Date
  updatedAt :: Date

record Notification =
  Notification_id :: string
  Notification_userId :: string
  Notification_type :: NotificationType
  title :: string
  Notification_message :: string
  data :: "(string \<times> string) list"
  isRead :: bool
  Notification_createdAt :: Date

record SearchCriteria =
  fromCity :: "string option"
  toCity :: "string option"
  departureDate :: "Date option"
  maxCostPerSeat :: "number option"
  criteria_availableSeats :: "int option"
  criteria_genderPreference :: "GenderPreference option"

section \<open>Searching rides\<close>

text \<open>
  \<^verbatim>\<open>src/shadcn-ui/src/pages/SearchRides.tsx\<close>. \<^verbatim>\<open>toLowerCase\<close> is modelled on
  ASCII letters; \<^verbatim>\<open>includes\<close> is the substring test.
\<close>

definition toLowerCase :: "string \<Rightarrow> string" where
  "toLowerCase s =
     map (\<lambda>c. let n = (of_char c :: nat) in if 65 \<le> n \<and> n \<le> 90 then char_of (n + 32) else c) s"

fun string_includes :: "string \<Rightarrow> string \<Rightarrow> bool" where
  "string_includes [] sub = (sub = [])"
| "string_includes (c # cs) sub = (take (length sub) (c # cs) = sub \<or> string_includes cs sub)"

text \<open>
  The effect hook of the page loads the candidate rides: the stored rides that are
  active, are offers, are not driven by the current user and do not have the current
  user among their passengers. With no current user the condition is false.
\<close>

definition activeRides :: "User option \<Rightarrow> Ride list \<Rightarrow> Ride list" where
  "activeRides currentUser allRides =
     filter (\<lambda>ride. Ride_status ride = Active \<and> Ride_type ride = Offer \<and>
               (case currentUser of
                  None \<Rightarrow> False
                | Some u \<Rightarrow> driverId ride \<noteq> User_id u \<and> User_id u \<notin> set (passengers ride)))
            allRides"

text \<open>
  \<^verbatim>\<open>handleSearch(criteria)\<close> filters the loaded rides, one criterion after the other;
  each of its six steps is a function here, named after the comment that heads it.
  A criterion is applied when it is truthy: a string that is present and not empty, a
  date that is present, a number that is present and neither 0 nor NaN.
  \<^verbatim>\<open>toDateString\<close> depends on the time zone of the browser and is a parameter.
\<close>

definition filter_by_from_city :: "SearchCriteria \<Rightarrow> Ride list \<Rightarrow> Ride list" where
  "filter_by_from_city criteria filtered =
     (case fromCity criteria of
        Some c \<Rightarrow>
          if c \<noteq> [] then
            filter (\<lambda>ride. string_includes (toLowerCase (city (fromLocation ride))) (toLowerCase c) \<or>
                            string_includes (toLowerCase (address (fromLocation ride))) (toLowerCase c))
                   filtered
          else filtered
      | None \<Rightarrow> filtered)"

definition filter_by_to_city :: "SearchCriteria \<Rightarrow> Ride list \<Rightarrow> Ride list" where
  "filter_by_to_city criteria filtered =
     (case toCity criteria of
        Some c \<Rightarrow>
          if c \<noteq> [] then
            filter (\<lambda>ride. string_includes (toLowerCase (city (toLocation ride))) (toLowerCase c) \<or>
                            string_includes (toLowerCase (address (toLocation ride))) (toLowerCase c))
                   filtered
          else filtered
      | None \<Rightarrow> filtered)"

definition filter_by_departure_date ::
  "(Date \<Rightarrow> string) \<Rightarrow> SearchCriteria \<Rightarrow> Ride list \<Rightarrow> Ride list" where
  "filter_by_departure_date toDateString criteria filtered =
     (case departureDate criteria of
        Some d \<Rightarrow>
          (let searchDate = toDateString d
           in filter (\<lambda>ride. toDateString (departureTime ride) = searchDate) filtered)
      | None \<Rightarrow> filtered)"

definition filter_by_max_cost :: "SearchCriteria \<Rightarrow> Ride list \<Rightarrow> Ride list" where
  "filter_by_max_cost criteria filtered =
     (case maxCostPerSeat criteria of
        Some m \<Rightarrow>
          if truthy m then filter (\<lambda>ride. num_le (Ride_costPerSeat ride) m) filtered
          else filtered
      | None \<Rightarrow> filtered)"

definition filter_by_available_seats :: "SearchCriteria \<Rightarrow> Ride list \<Rightarrow> Ride list" where
  "filter_by_available_seats criteria filtered =
     (case criteria_availableSeats criteria of
        Some n \<Rightarrow>
          if n \<noteq> 0 then filter (\<lambda>ride. n \<le> availableSeats ride) filtered
          else filtered
      | None \<Rightarrow> filtered)"

definition filter_by_gender_preference :: "SearchCriteria \<Rightarrow> Ride list \<Rightarrow> Ride list" where
  "filter_by_gender_preference criteria filtered =
     (case criteria_genderPreference criteria of
        Some g \<Rightarrow>
          filter (\<lambda>ride. genderPreference (preferences ride) = Any \<or>
                          genderPreference (preferences ride) = g)
                 filtered
      | None \<Rightarrow> filtered)"

definition handleSearch :: "(Date \<Rightarrow> string) \<Rightarrow> SearchCriteria \<Rightarrow> Ride list \<Rightarrow> Ride list" where
  "handleSearch toDateString criteria rides =
     (let filtered = rides;
          filtered = filter_by_from_city criteria filtered;
          filtered = filter_by_to_city criteria filtered;
          filtered = filter_by_departure_date toDateString criteria filtered;
          filtered = filter_by_max_cost criteria filtered;
          filtered = filter_by_available_seats criteria filtered;
          filtered = filter_by_gender_preference criteria filtered
      in filtered)"

text \<open>
  The remaining seats as the specification defines them: the capacity of the ride
  minus the number of its passengers, the capacity being the seat count stored with
  the ride.
\<close>

definition spec_remainingSeats :: "Ride \<Rightarrow> int" where
  "spec_remainingSeats ride = availableSeats ride - int (length (passengers ride))"

section \<open>Requesting to join a ride\<close>

text \<open>
  The state that \<^verbatim>\<open>handleJoinRide\<close> reads and writes: the state variables of the page
  (\<^verbatim>\<open>user\<close>, \<^verbatim>\<open>rides\<close>, \<^verbatim>\<open>filteredRides\<close>, \<^verbatim>\<open>message\<close>) and the two lists kept in
  local storage. The storage helpers catch their own errors, so nothing is thrown.
\<close>

record SearchRidesState =
  user :: "User option"
  rides :: "Ride list"
  filteredRides :: "Ride list"
  message :: string
  rideRequests :: "RideRequest list"
  notifications :: "Notification list"

definition getUserRequests :: "string \<Rightarrow> RideRequest list \<Rightarrow> RideRequest list" where
  "getUserRequests uid requests = filter (\<lambda>r. passengerId r = uid) requests"

text \<open>
  \<^verbatim>\<open>handleJoinRide(rideId)\<close>. The two results of \<^verbatim>\<open>generateId()\<close> and the result of
  \<^verbatim>\<open>new Date()\<close> are parameters. \<^verbatim>\<open>addRequest\<close> appends to the stored requests;
  \<^verbatim>\<open>addNotification\<close> puts the notification in front.
\<close>

definition handleJoinRide ::
  "string \<Rightarrow> string \<Rightarrow> Date \<Rightarrow> string \<Rightarrow> SearchRidesState \<Rightarrow> SearchRidesState" where
  "handleJoinRide newRequestId newNotificationId now rid s =
     (case user s of
        None \<Rightarrow> s
      | Some u \<Rightarrow>
          (case find (\<lambda>r. Ride_id r = rid) (rides s) of
             None \<Rightarrow> s\<lparr>message := ''Ride not found''\<rparr>
           | Some found \<Rightarrow>
               if availableSeats found \<le> 0 then s\<lparr>message := ''No seats available''\<rparr>
               else
                 (let existingRequests = getUserRequests (User_id u) (rideRequests s);
                      hasRequested =
                        list_ex (\<lambda>req. rideId req = rid \<and> RideRequest_status req = Pending)
                                existingRequests
                  in if hasRequested then
                       s\<lparr>message := ''You have already requested to join this ride''\<rparr>
                     else
                       (let request =
                              \<lparr>RideRequest_id = newRequestId, passengerId = User_id u,
                               RideRequest_passenger = u, rideId = rid, RideRequest_ride = found,
                               RideRequest_status = Pending,
                               RideRequest_message =
                                 firstName u @ '' '' @ lastName u @ '' would like to join your ride'',
                               requestedSeats = 1, createdAt = now, updatedAt = now\<rparr>;
                            notification =
                              \<lparr>Notification_id = newNotificationId,
                               Notification_userId = driverId found,
                               Notification_type = N_ride_request,
                               title = ''New Ride Request'',
                               Notification_message =
                                 firstName u @ '' '' @ lastName u @ '' wants to join your ride'',
                               data = [(''rideId'', rid), (''requestId'', newRequestId)],
                               isRead = False, Notification_createdAt = now\<rparr>
                        in s\<lparr>rideRequests := rideRequests s @ [request],
                             notifications := notification # notifications s,
                             message := ''Ride request sent! The driver will be notified.'',
                             filteredRides := filter (\<lambda>r. Ride_id r \<noteq> rid) (filteredRides s)\<rparr>))))"

section \<open>The database schema and its functions\<close>

text \<open>
  \<^verbatim>\<open>src/supabase-functions.sql\<close>. A table is the list of its rows. A column keeps its
  name behind the alias its table has in the queries (\<^verbatim>\<open>r\<close> for rides, \<^verbatim>\<open>rr\<close> for
  ride_requests, \<^verbatim>\<open>rp\<close> for ride_passengers, and \<^verbatim>\<open>n\<close>, \<^verbatim>\<open>u\<close>, \<^verbatim>\<open>rt\<close> for
  notifications, users and ratings). Generated keys of ride_passengers and
  notifications, timestamps and the columns that no function below reads are left
  out. Of the columns that are read, \<^verbatim>\<open>requested_seats\<close> of ride_requests is
  declared without NOT NULL (\<^verbatim>\<open>INTEGER DEFAULT 1 CHECK (requested_seats > 0)\<close>), so
  it is an optional value, null being \<open>None\<close>. The \<^verbatim>\<open>status\<close> of ride_requests
  has no NOT NULL either; a null status fails the test \<^verbatim>\<open>status = 'pending'\<close> as
  the statuses approved and rejected do, and the model keeps the three values of the
  enum. The other columns that are read are NOT NULL.
\<close>

type_synonym uuid = string

datatype RatingType = Driver | Passenger

record users_row =
  u_id :: uuid
  u_rating :: real
  u_total_ratings :: int

record rides_row =
  r_id :: uuid
  r_driver_id :: uuid
  r_type :: RideType
  r_available_seats :: int
  r_status :: RideStatus

record ride_passengers_row =
  rp_ride_id :: uuid
  rp_passenger_id :: uuid

record ride_requests_row =
  rr_id :: uuid
  rr_passenger_id :: uuid
  rr_ride_id :: uuid
  rr_status :: RequestStatus
  rr_message :: "string option"
  rr_requested_seats :: "int option"

record ratings_row =
  rt_rater_id :: uuid
  rt_rated_user_id :: uuid
  rt_ride_id :: uuid
  rt_score :: int
  rt_type :: RatingType

record notifications_row =
  n_user_id :: uuid
  n_type :: NotificationType
  n_title :: string
  n_message :: string
  n_data :: "(string \<times> string) list"
  n_is_read :: bool

record database =
  db_users :: "users_row list"
  db_rides :: "rides_row list"
  db_ride_passengers :: "ride_passengers_row list"
  db_ride_requests :: "ride_requests_row list"
  db_ratings :: "ratings_row list"
  db_notifications :: "notifications_row list"

datatype sql_error =
  unique_violation | check_violation | foreign_key_violation | numeric_value_out_of_range

text \<open>\<^verbatim>\<open>create_notification\<close> inserts one row; \<^verbatim>\<open>is_read\<close> takes its default.\<close>

definition create_notification ::
  "uuid \<Rightarrow> NotificationType \<Rightarrow> string \<Rightarrow> string \<Rightarrow> (string \<times> string) list \<Rightarrow> database
     \<Rightarrow> database" where
  "create_notification user_id_param type_param title_param message_param data_param db =
     db\<lparr>db_notifications := db_notifications db @
          [\<lparr>n_user_id = user_id_param, n_type = type_param, n_title = title_param,
            n_message = message_param, n_data = data_param, n_is_read = False\<rparr>]\<rparr>"

text \<open>
  The comparison \<^verbatim>\<open><\<close> of SQL on nullable integers: null when an operand is null.
\<close>

fun sql_less :: "int option \<Rightarrow> int option \<Rightarrow> bool option" where
  "sql_less (Some a) (Some b) = Some (a < b)"
| "sql_less _ _ = None"

text \<open>
  \<^verbatim>\<open>approve_ride_request(request_id_param)\<close>. The first query joins the request with
  its ride and keeps it only when it is pending; the second computes the seats left
  in the ride of the request (no row gives null). \<^verbatim>\<open>IF\<close> takes its branch only when
  the condition is true, not when it is null. The insert into ride_passengers raises
  \<^verbatim>\<open>unique_violation\<close> when the pair (ride_id, passenger_id) is there already; an
  exception undoes what the function did. The result is the outcome of the call and
  the database after it.
\<close>

definition approve_ride_request :: "uuid \<Rightarrow> database \<Rightarrow> (sql_error + bool) \<times> database" where
  "approve_ride_request request_id_param db =
     (case find (\<lambda>rr. rr_id rr = request_id_param \<and> rr_status rr = Pending \<and>
                       list_ex (\<lambda>r. r_id r = rr_ride_id rr) (db_rides db))
                (db_ride_requests db) of
        None \<Rightarrow> (Inr False, db)
      | Some request_record \<Rightarrow>
          (let available_seats_count =
                 (case find (\<lambda>r. r_id r = rr_ride_id request_record) (db_rides db) of
                    None \<Rightarrow> None
                  | Some r \<Rightarrow>
                      Some (r_available_seats r -
                            int (length (filter (\<lambda>rp. rp_ride_id rp = r_id r)
                                           (db_ride_passengers db)))))
           in if sql_less available_seats_count (rr_requested_seats request_record) = Some True
              then (Inr False, db)
              else
                (let db1 = db\<lparr>db_ride_requests :=
                                map (\<lambda>rr. if rr_id rr = request_id_param
                                          then rr\<lparr>rr_status := Approved\<rparr> else rr)
                                    (db_ride_requests db)\<rparr>
                 in if list_ex (\<lambda>rp. rp_ride_id rp = rr_ride_id request_record \<and>
                                     rp_passenger_id rp = rr_passenger_id request_record)
                               (db_ride_passengers db1)
                    then (Inl unique_violation, db)
                    else
                      (let db2 = db1\<lparr>db_ride_passengers := db_ride_passengers db1 @
                                       [\<lparr>rp_ride_id = rr_ride_id request_record,
                                         rp_passenger_id = rr_passenger_id request_record\<rparr>]\<rparr>;
                           db3 = create_notification (rr_passenger_id request_record)
                                   N_ride_approved ''Ride Request Approved!''
                                   ''Your request to join the ride has been approved.''
                                   [(''ride_id'', rr_ride_id request_record)] db2
                       in (Inr True, db3)))))"

text \<open>A sequence of calls, each on the database the call before it left.\<close>

fun approve_all :: "uuid list \<Rightarrow> database \<Rightarrow> database" where
  "approve_all [] db = db"
| "approve_all (i # ids) db = approve_all ids (snd (approve_ride_request i db))"

text \<open>
  The passengers of a ride are the rows of ride_passengers with its id; the capacity
  of a ride is its column \<^verbatim>\<open>available_seats\<close>.
\<close>

definition passenger_count :: "database \<Rightarrow> uuid \<Rightarrow> nat" where
  "passenger_count db ride_id =
     length (filter (\<lambda>rp. rp_ride_id rp = ride_id) (db_ride_passengers db))"

definition capacity_respected :: "database \<Rightarrow> bool" where
  "capacity_respected db =
     list_all (\<lambda>r. int (passenger_count db (r_id r)) \<le> r_available_seats r) (db_rides db)"

text \<open>
  What the schema guarantees of the rows the functions read: the primary keys of
  rides and ride_requests, and the check \<^verbatim>\<open>requested_seats > 0\<close>, which a null
  passes (a check fails only when its condition is false).
\<close>

definition schema_constraints :: "database \<Rightarrow> bool" where
  "schema_constraints db =
     (distinct (map r_id (db_rides db)) \<and> distinct (map rr_id (db_ride_requests db)) \<and>
      list_all (\<lambda>rr. case rr_requested_seats rr of None \<Rightarrow> True | Some n \<Rightarrow> 0 < n)
        (db_ride_requests db))"

text \<open>No request has a null \<^verbatim>\<open>requested_seats\<close>: what the schema does not guarantee.\<close>

definition requested_seats_not_null :: "database \<Rightarrow> bool" where
  "requested_seats_not_null db =
     list_all (\<lambda>rr. rr_requested_seats rr \<noteq> None) (db_ride_requests db)"

section \<open>Ratings\<close>












section \<open>Example data\<close>

definition example_user :: User where
  "example_user =
     \<lparr>User_id = ''u1'', firstName = ''Ann'', lastName = ''Lee'',
      email = ''ann@student.college.edu'', isVerified = True\<rparr>"

definition example_ride :: Ride where
  "example_ride =
     \<lparr>Ride_id = ''r1'', driverId = ''u2'', Ride_type = Offer,
      fromLocation = \<lparr>address = ''University Campus'', city = ''San Francisco'', state = ''CA''\<rparr>,
      toLocation = \<lparr>address = ''Downtown Area'', city = ''San Francisco'', state = ''CA''\<rparr>,
      departureTime = 0, availableSeats = 2, Ride_costPerSeat = Fin 15,
      description = ''Heading downtown'', Ride_status = Active,
      preferences = \<lparr>smokingAllowed = False, petsAllowed = False, musicAllowed = True,
                      genderPreference = Any\<rparr>,
      passengers = []\<rparr>"

definition no_criteria :: SearchCriteria where
  "no_criteria =
     \<lparr>fromCity = None, toCity = None, departureDate = None, maxCostPerSeat = None,
      criteria_availableSeats = None, criteria_genderPreference = None\<rparr>"

definition example_state :: SearchRidesState where
  "example_state =
     \<lparr>user = Some example_user, rides = [example_ride], filteredRides = [example_ride],
      message = [], rideRequests = [], notifications = []\<rparr>"

definition example_db :: database where
  "example_db =
     \<lparr>db_users = [\<lparr>u_id = ''u1'', u_rating = 0, u_total_ratings = 0\<rparr>,
                  \<lparr>u_id = ''u2'', u_rating = 0, u_total_ratings = 0\<rparr>,
                  \<lparr>u_id = ''u3'', u_rating = 0, u_total_ratings = 0\<rparr>],
      db_rides = [\<lparr>r_id = ''r1'', r_driver_id = ''u1'', r_type = Offer, r_available_seats = 1,
                   r_status = Active\<rparr>],
      db_ride_passengers = [],
      db_ride_requests =
        [\<lparr>rr_id = ''q1'', rr_passenger_id = ''u2'', rr_ride_id = ''r1'', rr_status = Pending,
          rr_message = None, rr_requested_seats = Some 1\<rparr>,
         \<lparr>rr_id = ''q2'', rr_passenger_id = ''u3'', rr_ride_id = ''r1'', rr_status = Pending,
          rr_message = None, rr_requested_seats = Some 1\<rparr>],
      db_ratings = [],
      db_notifications = []\<rparr>"

text \<open>
  A ride with one seat that has its one passenger, and a pending request of another
  user for it whose \<^verbatim>\<open>requested_seats\<close> is null.
\<close>

definition full_ride_db :: database where
  "full_ride_db =
     \<lparr>db_users = [\<lparr>u_id = ''u1'', u_rating = 0, u_total_ratings = 0\<rparr>,
                  \<lparr>u_id = ''u2'', u_rating = 0, u_total_ratings = 0\<rparr>,
                  \<lparr>u_id = ''u3'', u_rating = 0, u_total_ratings = 0\<rparr>],
      db_rides = [\<lparr>r_id = ''r1'', r_driver_id = ''u1'', r_type = Offer, r_available_seats = 1,
                   r_status = Active\<rparr>],
      db_ride_passengers = [\<lparr>rp_ride_id = ''r1'', rp_passenger_id = ''u2''\<rparr>],
      db_ride_requests =
        [\<lparr>rr_id = ''q2'', rr_passenger_id = ''u3'', rr_ride_id = ''r1'', rr_status = Pending,
          rr_message = None, rr_requested_seats = None\<rparr>],
      db_ratings = [],
      db_notifications = []\<rparr>"



section \<open>Properties of the rounding to doubles\<close>

lemma powr_powi: "(2::real) powr real_of_int k = 2 powi k"
  by (rule powr_real_of_int') auto

lemma floor_log2_eq_iff:
  assumes "0 < a"
  shows "\<lfloor>log 2 a\<rfloor> = k \<longleftrightarrow> 2 powi k \<le> a \<and> a < 2 powi (k + 1)"
proof -
  have "real_of_int k + 1 = real_of_int (k + 1)" by simp
  then show ?thesis
    using floor_log_eq_powr_iff [of a 2 k] assms powr_powi [of k] powr_powi [of "k + 1"]
    by simp
qed

lemma floor_log2_bounds:
  assumes "0 < a"
  shows "2 powi \<lfloor>log 2 a\<rfloor> \<le> a" and "a < 2 powi (\<lfloor>log 2 a\<rfloor> + 1)"
  using floor_log2_eq_iff [OF assms, of "\<lfloor>log 2 a\<rfloor>"] by simp_all

lemma exponent_upper: "0 < a \<Longrightarrow> a < 2 powi (exponent a + 1)"
proof -
  assume a: "0 < a"
  have "a < 2 powi (\<lfloor>log 2 a\<rfloor> + 1)" by (rule floor_log2_bounds [OF a])
  also have "\<dots> \<le> 2 powi (exponent a + 1)"
    by (intro power_int_increasing) (auto simp: exponent_def)
  finally show ?thesis .
qed

lemma exponent_lower: "0 < a \<Longrightarrow> - 1022 < exponent a \<Longrightarrow> 2 powi exponent a \<le> a"
  using floor_log2_bounds(1) [of a] by (auto simp: exponent_def max_def split: if_splits)

lemma exponent_lower': "2 powi (- 1022) \<le> a \<Longrightarrow> 2 powi exponent a \<le> a"
proof -
  assume h: "2 powi (- 1022) \<le> a"
  have pos: "0 < (2::real) powi (- 1022)" by simp
  then have a: "0 < a" using h by linarith
  show ?thesis
  proof (cases "- 1022 < exponent a")
    case True
    then show ?thesis using exponent_lower [OF a] by simp
  next
    case False
    then have "exponent a = - 1022" by (simp add: exponent_def)
    then show ?thesis using h by simp
  qed
qed


lemma exponent_eq:
  assumes "2 powi e \<le> a" and "a < 2 powi (e + 1)" and "- 1022 \<le> e"
  shows "exponent a = e"
proof -
  have "0 < (2::real) powi e" by simp
  then have a: "0 < a" using assms(1) by linarith
  have "\<lfloor>log 2 a\<rfloor> = e" using floor_log2_eq_iff [OF a, of e] assms by simp
  then show ?thesis using assms(3) by (simp add: exponent_def)
qed

lemma exponent_subnormal:
  assumes "0 < a" and "a < 2 powi (- 1022)"
  shows "exponent a = - 1022"
proof -
  have "\<not> (- 1022 < \<lfloor>log 2 a\<rfloor>)"
  proof
    assume "- 1022 < \<lfloor>log 2 a\<rfloor>"
    then have "(2::real) powi (- 1022) \<le> 2 powi \<lfloor>log 2 a\<rfloor>"
      by (intro power_int_increasing) auto
    also have "\<dots> \<le> a" by (rule floor_log2_bounds [OF assms(1)])
    finally show False using assms(2) by simp
  qed
  then show ?thesis by (simp add: exponent_def)
qed

lemma rne_int [simp]: "rne (of_int k) = k"
  by (simp add: rne_def)

lemma rne_error: "\<bar>of_int (rne y) - y\<bar> \<le> 1 / 2"
  unfolding rne_def Let_def by (auto split: if_splits)

lemma rne_mono: "y \<le> z \<Longrightarrow> rne y \<le> rne z"
proof -
  assume yz: "y \<le> z"
  have fl: "\<lfloor>y\<rfloor> \<le> \<lfloor>z\<rfloor>" using yz by (rule floor_mono)
  have ry: "rne y \<le> \<lfloor>y\<rfloor> + 1" and rz: "\<lfloor>z\<rfloor> \<le> rne z"
    by (auto simp: rne_def Let_def)
  show ?thesis
  proof (cases "\<lfloor>y\<rfloor> = \<lfloor>z\<rfloor>")
    case False
    then show ?thesis using fl ry rz by linarith
  next
    case True
    then show ?thesis using yz by (auto simp: rne_def Let_def)
  qed
qed

lemma rne_ge: "of_int k \<le> y \<Longrightarrow> k \<le> rne y"
  using rne_mono [of "of_int k" y] by simp

lemma rne_le: "y \<le> of_int k \<Longrightarrow> rne y \<le> k"
  using rne_mono [of y "of_int k"] by simp

lemma rne_minus: "rne (- y) = - rne y"
proof (cases "y = of_int \<lfloor>y\<rfloor>")
  case True
  define k where "k = \<lfloor>y\<rfloor>"
  have y: "y = of_int k" using True by (simp add: k_def)
  have "rne (of_int (- k)) = - rne (of_int k)" by (simp only: rne_int)
  then show ?thesis by (simp add: y)
next
  case False
  then have lt: "of_int \<lfloor>y\<rfloor> < y" by linarith
  have fl: "\<lfloor>- y\<rfloor> = - \<lfloor>y\<rfloor> - 1" using lt by linarith
  show ?thesis
    unfolding rne_def Let_def fl using lt by (auto split: if_splits)
qed

lemma grid_top: "(2::real) powi (e + 1) = 2 ^ 53 * 2 powi (e - 52)"
  using power_int_add [of "2::real" 53 "e - 52"] by (simp add: add.commute)


lemma round_to_grid_unfold:
  "x \<noteq> 0 \<Longrightarrow>
   round_to_grid x =
     real_of_int (rne (x / 2 powi (exponent \<bar>x\<bar> - 52))) * 2 powi (exponent \<bar>x\<bar> - 52)"
  by (simp add: round_to_grid_def Let_def)

lemma round_to_grid_zero [simp]: "round_to_grid 0 = 0"
  by (simp add: round_to_grid_def)

lemma round_to_grid_minus: "round_to_grid (- x) = - round_to_grid x"
  by (cases "x = 0") (simp_all add: round_to_grid_unfold rne_minus)

lemma round_to_grid_nonneg: "0 \<le> x \<Longrightarrow> 0 \<le> round_to_grid x"
proof -
  assume x: "0 \<le> x"
  have "0 \<le> rne (x / 2 powi (exponent \<bar>x\<bar> - 52))"
    using x by (intro rne_ge) simp
  then show ?thesis by (cases "x = 0") (simp_all add: round_to_grid_unfold)
qed

lemma round_to_grid_upper:
  assumes "0 < x"
  shows "round_to_grid x \<le> 2 powi (exponent x + 1)"
proof -
  let ?u = "(2::real) powi (exponent x - 52)"
  have u: "0 < ?u" by simp
  have "x < 2 ^ 53 * ?u" using exponent_upper [OF assms] by (simp add: grid_top)
  then have "x / ?u \<le> of_int (2 ^ 53)" using u by (simp add: pos_divide_le_eq)
  then have "rne (x / ?u) \<le> 2 ^ 53" by (rule rne_le)
  then have "real_of_int (rne (x / ?u)) \<le> 2 ^ 53"
    by (metis of_int_le_iff of_int_numeral of_int_power)
  then have "real_of_int (rne (x / ?u)) * ?u \<le> 2 ^ 53 * ?u"
    using u by (intro mult_right_mono) auto
  then show ?thesis using assms by (simp add: round_to_grid_unfold grid_top)
qed




lemma round_to_grid_error:
  "\<bar>round_to_grid x - x\<bar> \<le> \<bar>x\<bar> / 2 ^ 53 + 2 powi (- 1075)"
proof (cases "x = 0")
  case True
  then show ?thesis by (simp add: round_to_grid_def)
next
  case False
  let ?e = "exponent \<bar>x\<bar>"
  let ?u = "(2::real) powi (?e - 52)"
  have u: "0 < ?u" by simp
  have ax: "0 < \<bar>x\<bar>" using False by simp
  have "round_to_grid x - x = (real_of_int (rne (x / ?u)) - x / ?u) * ?u"
    using False by (simp add: round_to_grid_unfold left_diff_distrib)
  then have "\<bar>round_to_grid x - x\<bar> = \<bar>real_of_int (rne (x / ?u)) - x / ?u\<bar> * ?u"
    using u by (simp add: abs_mult)
  also have "\<dots> \<le> 1 / 2 * ?u"
    using rne_error [of "x / ?u"] u by (intro mult_right_mono) auto
  finally have half: "\<bar>round_to_grid x - x\<bar> \<le> ?u / 2" by simp
  have split: "?u / 2 = 2 powi (?e - 53)"
    using power_int_add [of "2::real" "?e - 53" 1] by simp
  show ?thesis
  proof (cases "- 1022 < ?e")
    case True
    then have "2 powi ?e \<le> \<bar>x\<bar>" using exponent_lower [OF ax] by simp
    moreover have "(2::real) powi ?e = 2 ^ 53 * 2 powi (?e - 53)"
      using power_int_add [of "2::real" 53 "?e - 53"] by simp
    ultimately have "2 powi (?e - 53) \<le> \<bar>x\<bar> / 2 ^ 53"
      by (simp add: pos_le_divide_eq mult.commute)
    moreover have "0 \<le> (2::real) powi (- 1075)" by simp
    ultimately show ?thesis using half split by linarith
  next
    case False
    have "- 1022 \<le> ?e" by (simp add: exponent_def)
    then have "?e = - 1022" using False by simp
    then have "?u / 2 = 2 powi (- 1075)" using split by simp
    moreover have "0 \<le> \<bar>x\<bar> / 2 ^ 53" by simp
    ultimately show ?thesis using half by linarith
  qed
qed

lemma exponent_le_1022:
  assumes "0 < a" and "a < 2 powi 1023"
  shows "exponent a \<le> 1022"
proof (rule ccontr)
  assume "\<not> exponent a \<le> 1022"
  then have big: "1023 \<le> exponent a" by simp
  then have "2 powi exponent a \<le> a" using exponent_lower [OF assms(1)] by simp
  moreover have "(2::real) powi 1023 \<le> 2 powi exponent a"
    using big by (intro power_int_increasing) auto
  ultimately show False using assms(2) by linarith
qed

lemma round_to_grid_bounded:
  assumes "\<bar>x\<bar> < 2 powi 1023"
  shows "\<bar>round_to_grid x\<bar> \<le> 2 powi 1023"
proof (cases "x = 0")
  case True
  then show ?thesis by (simp add: round_to_grid_def)
next
  case False
  then have ax: "0 < \<bar>x\<bar>" by simp
  have "round_to_grid \<bar>x\<bar> \<le> 2 powi (exponent \<bar>x\<bar> + 1)" by (rule round_to_grid_upper [OF ax])
  also have "\<dots> \<le> 2 powi 1023"
    using exponent_le_1022 [OF ax assms] by (intro power_int_increasing) auto
  finally have up: "round_to_grid \<bar>x\<bar> \<le> 2 powi 1023" .
  have "\<bar>round_to_grid x\<bar> = round_to_grid \<bar>x\<bar>"
  proof (cases "0 \<le> x")
    case True
    then show ?thesis using round_to_grid_nonneg [of x] by simp
  next
    case False
    then have "0 \<le> round_to_grid (- x)" by (intro round_to_grid_nonneg) simp
    then show ?thesis using False by (simp add: round_to_grid_minus abs_if)
  qed
  then show ?thesis using up by simp
qed

lemma binary64_finite:
  assumes "\<bar>x\<bar> < 2 powi 1023"
  shows "binary64 x = Fin (round_to_grid x)"
proof -
  have "(2::real) powi 1023 < 2 powi 1024" by (intro power_int_strict_increasing) auto
  then have "\<bar>round_to_grid x\<bar> < 2 powi 1024"
    using round_to_grid_bounded [OF assms] by linarith
  then show ?thesis by (auto simp: binary64_def Let_def)
qed


lemma round_to_grid_exact:
  assumes "x = of_int k * 2 powi m" and "\<bar>k\<bar> < 2 ^ 53" and "- 1074 \<le> m"
  shows "round_to_grid x = x"
proof (cases "x = 0")
  case True
  then show ?thesis by (simp add: round_to_grid_def)
next
  case False
  let ?e = "exponent \<bar>x\<bar>"
  have ax: "0 < \<bar>x\<bar>" using False by simp
  have m: "?e - 52 \<le> m"
  proof (rule ccontr)
    assume "\<not> ?e - 52 \<le> m"
    then have em: "m + 53 \<le> ?e" by simp
    then have "- 1022 < ?e" using assms(3) by simp
    then have low: "2 powi ?e \<le> \<bar>x\<bar>" using exponent_lower [OF ax] by simp
    have "\<bar>x\<bar> = real_of_int \<bar>k\<bar> * 2 powi m" by (simp add: assms(1) abs_mult)
    also have "\<dots> < 2 ^ 53 * 2 powi m"
    proof -
      have "real_of_int \<bar>k\<bar> < 2 ^ 53"
        using assms(2) by (metis of_int_less_iff of_int_numeral of_int_power)
      then show ?thesis by (intro mult_strict_right_mono) auto
    qed
    also have "\<dots> = 2 powi (m + 53)"
      using power_int_add [of "2::real" 53 m] by (simp add: add.commute)
    also have "\<dots> \<le> 2 powi ?e" using em by (intro power_int_increasing) auto
    finally show False using low by simp
  qed
  define j where "j = nat (m - (?e - 52))"
  define u where "u = (2::real) powi (?e - 52)"
  have u: "0 < u" by (simp add: u_def)
  have mj: "m = (?e - 52) + int j" using m by (simp add: j_def)
  have pw: "(2::real) powi m = u * 2 ^ j"
    using power_int_add [of "2::real" "?e - 52" "int j"] mj by (simp add: u_def)
  have xk: "x = real_of_int (k * 2 ^ j) * u"
    by (simp add: assms(1) pw mult_ac)
  then have "x / u = real_of_int (k * 2 ^ j)" using u by simp
  then have "rne (x / u) = k * 2 ^ j" by (simp only: rne_int)
  then have "round_to_grid x = real_of_int (k * 2 ^ j) * u"
    using round_to_grid_unfold [OF False] by (simp add: u_def)
  then show ?thesis using xk by simp
qed

lemma round_to_grid_eval:
  assumes "2 powi e \<le> \<bar>x\<bar>" and "\<bar>x\<bar> < 2 powi (e + 1)" and "- 1022 \<le> e"
  shows "round_to_grid x = of_int (rne (x / 2 powi (e - 52))) * 2 powi (e - 52)"
proof -
  have "0 < (2::real) powi e" by simp
  then have "0 < \<bar>x\<bar>" using assms(1) by linarith
  then have "x \<noteq> 0" by simp
  then show ?thesis using exponent_eq [OF assms] by (simp add: round_to_grid_unfold)
qed

lemma binary64_zero [simp]: "binary64 0 = Fin 0"
  by (simp add: binary64_def)

lemma binary64_not_NaN [simp]: "binary64 x \<noteq> NaN"
  by (simp add: binary64_def Let_def)


lemma binary64_eval:
  assumes "2 powi e \<le> \<bar>x\<bar>" and "\<bar>x\<bar> < 2 powi (e + 1)" and "- 1022 \<le> e" and "e \<le> 1022"
  shows "binary64 x = Fin (of_int (rne (x / 2 powi (e - 52))) * 2 powi (e - 52))"
proof -
  have "(2::real) powi (e + 1) \<le> 2 powi 1023"
    using assms(4) by (intro power_int_increasing) auto
  then have "\<bar>x\<bar> < 2 powi 1023" using assms(2) by linarith
  then show ?thesis
    using round_to_grid_eval [OF assms(1-3)] by (simp add: binary64_finite)
qed

lemma binary64_dyadic:
  assumes "\<bar>k\<bar> < 2 ^ 53" and "j \<le> 1074"
  shows "binary64 (of_int k / 2 ^ j) = Fin (of_int k / 2 ^ j)"
proof -
  let ?x = "real_of_int k / 2 ^ j"
  have x: "?x = of_int k * 2 powi (- int j)"
    by (simp add: power_int_minus field_simps)
  have rt: "round_to_grid ?x = ?x"
    using assms by (intro round_to_grid_exact [OF x]) auto
  have "real_of_int \<bar>k\<bar> < 2 ^ 53"
    using assms(1) by (metis of_int_less_iff of_int_numeral of_int_power)
  moreover have "\<bar>?x\<bar> \<le> real_of_int \<bar>k\<bar>"
  proof -
    have "1 \<le> (2::real) ^ j" by simp
    then have "\<bar>real_of_int k\<bar> * 1 \<le> \<bar>real_of_int k\<bar> * 2 ^ j"
      by (intro mult_left_mono) auto
    then show ?thesis by (simp add: abs_divide divide_le_eq)
  qed
  moreover have "(2::real) ^ 53 < 2 powi 1023"
    using power_int_strict_increasing [of 53 1023 "2::real"] by simp
  ultimately have "\<bar>?x\<bar> < 2 powi 1023" by linarith
  then show ?thesis using rt by (simp add: binary64_finite)
qed

lemma binary64_int:
  assumes "\<bar>k\<bar> < 2 ^ 53"
  shows "binary64 (of_int k) = Fin (of_int k)"
  using binary64_dyadic [OF assms, of 0] by simp

lemma binary64_close:
  assumes "\<bar>z\<bar> \<le> Z" and "Z \<le> 2 ^ 60"
  shows "\<exists>r. binary64 z = Fin r \<and> \<bar>r - z\<bar> \<le> Z / 2 ^ 53 + 1 / 2 ^ 60"
proof -
  have "(2::real) ^ 60 < 2 powi 1023"
    using power_int_strict_increasing [of 60 1023 "2::real"] by simp
  then have fin: "binary64 z = Fin (round_to_grid z)"
    using assms by (intro binary64_finite) linarith
  have "(2::real) powi (- 1075) \<le> 2 powi (- 60)"
    by (intro power_int_increasing) auto
  then have eta: "(2::real) powi (- 1075) \<le> 1 / 2 ^ 60"
    by (simp add: power_int_minus field_simps)
  have "\<bar>z\<bar> / 2 ^ 53 \<le> Z / 2 ^ 53"
    using assms(1) by (intro divide_right_mono) auto
  then have "\<bar>round_to_grid z - z\<bar> \<le> Z / 2 ^ 53 + 1 / 2 ^ 60"
    using round_to_grid_error [of z] eta by linarith
  then show ?thesis using fin by blast
qed



lemma fl_not_NaN: "a \<noteq> NaN \<Longrightarrow> fl a \<noteq> NaN"
  by (cases a) auto









lemma rne_eval:
  assumes "of_int k - 1 / 2 < y" and "y < of_int k + 1 / 2"
  shows "rne y = k"
proof (cases "of_int k \<le> y")
  case True
  then have "\<lfloor>y\<rfloor> = k" using assms(2) by linarith
  then show ?thesis using assms(2) by (simp add: rne_def Let_def)
next
  case False
  then have "\<lfloor>y\<rfloor> = k - 1" using assms(1) by linarith
  then show ?thesis using assms(1) False by (simp add: rne_def Let_def)
qed

lemma binary64_at:
  assumes "2 powi e \<le> \<bar>x\<bar>" and "\<bar>x\<bar> < 2 powi (e + 1)" and "- 1022 \<le> e" and "e \<le> 1022"
    and "of_int k - 1 / 2 < x / 2 powi (e - 52)" and "x / 2 powi (e - 52) < of_int k + 1 / 2"
  shows "binary64 x = Fin (of_int k * 2 powi (e - 52))"
  using binary64_eval [OF assms(1-4)] rne_eval [OF assms(5,6)] by simp

lemma binary64_numeral:
  "numeral n < (2::int) ^ 53 \<Longrightarrow> binary64 (numeral n) = Fin (numeral n)"
  using binary64_int [of "numeral n"] by simp

lemma binary64_neg_numeral:
  "numeral n < (2::int) ^ 53 \<Longrightarrow> binary64 (- numeral n) = Fin (- numeral n)"
  using binary64_int [of "- numeral n"] by simp

lemma binary64_one [simp]: "binary64 1 = Fin 1"
  using binary64_int [of 1] by simp

lemma binary64_half_numeral:
  "numeral n < (2::int) ^ 53 \<Longrightarrow> binary64 (numeral n / 2) = Fin (numeral n / 2)"
  using binary64_dyadic [of "numeral n" 1] by simp

lemma binary64_neg_half_numeral:
  "numeral n < (2::int) ^ 53 \<Longrightarrow> binary64 (- (numeral n / 2)) = Fin (- (numeral n / 2))"
  using binary64_dyadic [of "- numeral n" 1] by simp



lemmas js_ops = js_add_def js_mul_def js_div_def

lemmas binary64_values =
  binary64_numeral binary64_neg_numeral binary64_half_numeral binary64_neg_half_numeral

section \<open>Properties of the cost calculator\<close>

text \<open>
  Claim C6. With an empty passenger list \<^verbatim>\<open>calculateRideCost\<close> returns the total
  cost as the cost per seat and as the driver's share, and an empty list of shares,
  whatever the total cost and the flag; with a total of 100 it returns
  costPerSeat 100, driverShare 100 and no shares.
\<close>

theorem calculateRideCost_no_passengers:
  "calculateRideCost total_cost drv [] includeDriverInSplit =
     \<lparr>totalCost = total_cost, costPerSeat = total_cost, numberOfPassengers = 0,
      driverShare = total_cost, passengerShares = []\<rparr>
   \<and> costPerSeat (calculateRideCost (Fin 100) drv [] includeDriverInSplit) = Fin 100
   \<and> driverShare (calculateRideCost (Fin 100) drv [] includeDriverInSplit) = Fin 100
   \<and> passengerShares (calculateRideCost (Fin 100) drv [] includeDriverInSplit) = []"
  by (simp add: calculateRideCost_def)

lemma round_cents_close:
  assumes "0 \<le> q" and "q \<le> 10 ^ 12"
  shows "\<exists>a. js_div (Math_round (js_mul (binary64 q) (Fin 100))) (Fin 100) = Fin a
            \<and> \<bar>a - q\<bar> \<le> 1 / 100"
proof -
  have q': "q \<le> 1000000000000" using assms(2) by simp
  have e1: "1000000000000 / 2 ^ 53 + 1 / 2 ^ 60 \<le> (1 / 8000 :: real)" by simp
  have e2: "100000000000100 / 2 ^ 53 + 1 / 2 ^ 60 \<le> (1 / 80 :: real)" by simp
  have e3: "1000000000002 / 2 ^ 53 + 1 / 2 ^ 60 \<le> (1 / 8000 :: real)" by simp
  have "\<bar>q\<bar> \<le> 1000000000000" using assms(1) q' by simp
  then obtain c where c: "binary64 q = Fin c"
    and "\<bar>c - q\<bar> \<le> 1000000000000 / 2 ^ 53 + 1 / 2 ^ 60"
    using binary64_close [of q 1000000000000] by auto
  then have cq: "\<bar>c - q\<bar> \<le> 1 / 8000" using e1 by linarith
  have cb: "\<bar>c\<bar> \<le> 1000000000001" using cq q' assms(1) by linarith
  have "\<bar>c * 100\<bar> = \<bar>c\<bar> * 100" by (simp add: abs_mult)
  with cb have cb': "\<bar>c * 100\<bar> \<le> 100000000000100" by linarith
  then obtain m where m: "binary64 (c * 100) = Fin m"
    and "\<bar>m - c * 100\<bar> \<le> 100000000000100 / 2 ^ 53 + 1 / 2 ^ 60"
    using binary64_close [of "c * 100" 100000000000100] by auto
  then have mc: "\<bar>m - c * 100\<bar> \<le> 1 / 80" using e2 by linarith
  define k where "k = \<lfloor>m + 1 / 2\<rfloor>"
  have km: "\<bar>real_of_int k - m\<bar> \<le> 1 / 2" unfolding k_def by linarith
  have kb: "\<bar>real_of_int k\<bar> \<le> 100000000000200" using km mc cb' by linarith
  have "\<bar>real_of_int k / 100\<bar> = \<bar>real_of_int k\<bar> / 100" by simp
  with kb have "\<bar>real_of_int k / 100\<bar> \<le> 1000000000002" by linarith
  then obtain a where a: "binary64 (real_of_int k / 100) = Fin a"
    and "\<bar>a - real_of_int k / 100\<bar> \<le> 1000000000002 / 2 ^ 53 + 1 / 2 ^ 60"
    using binary64_close [of "real_of_int k / 100" 1000000000002] by auto
  then have ak: "\<bar>a - real_of_int k / 100\<bar> \<le> 1 / 8000" using e3 by linarith
  have "js_div (Math_round (js_mul (binary64 q) (Fin 100))) (Fin 100) = Fin a"
    by (simp add: c js_mul_def m js_div_def a k_def [symmetric])
  moreover have "\<bar>a - q\<bar> \<le> 1 / 100" using ak km mc cq by linarith
  ultimately show ?thesis by blast
qed

lemma split_close:
  assumes "0 \<le> t" and "t \<le> 10 ^ 12" and "0 < n"
  shows "\<exists>a. js_div (Math_round (js_mul (js_div (Fin t) (Fin (real n))) (Fin 100))) (Fin 100) = Fin a
            \<and> \<bar>real n * a - t\<bar> \<le> 1 / 100 * real n"
proof -
  define q where "q = t / real n"
  have n0: "0 < real n" and n1: "1 \<le> real n" using assms(3) by simp_all
  have "0 \<le> q" using assms(1) n0 by (simp add: q_def)
  moreover have "q \<le> 10 ^ 12"
  proof -
    have "t \<le> 10 ^ 12 * 1" using assms(2) by simp
    also have "\<dots> \<le> 10 ^ 12 * real n" using n1 by (intro mult_left_mono) auto
    finally show ?thesis using n0 by (simp add: q_def divide_le_eq)
  qed
  ultimately obtain a
    where a: "js_div (Math_round (js_mul (binary64 q) (Fin 100))) (Fin 100) = Fin a"
      and b: "\<bar>a - q\<bar> \<le> 1 / 100"
    using round_cents_close by blast
  have d: "js_div (Fin t) (Fin (real n)) = binary64 q"
    using n0 by (simp add: js_div_def q_def)
  have t: "t = real n * q" using n0 by (simp add: q_def)
  have split: "real n * a - t = real n * (a - q)"
    unfolding t by (simp add: right_diff_distrib)
  have "\<bar>real n * a - t\<bar> = real n * \<bar>a - q\<bar>"
    unfolding split using n0 by (simp add: abs_mult)
  also have "\<dots> \<le> real n * (1 / 100)"
    using b n0 by (intro mult_left_mono) auto
  finally have "\<bar>real n * a - t\<bar> \<le> 1 / 100 * real n" by simp
  then show ?thesis using a d by auto
qed

lemma round_cents_zero: "js_div (Math_round (js_mul (Fin 0) (Fin 100))) (Fin 100) = Fin 0"
  by (simp add: js_ops)

lemma split_excluding_driver:
  assumes "passengerIds \<noteq> []" and "inc \<noteq> Some True"
  shows "driverShare (calculateRideCost total_cost d passengerIds inc) = Fin 0"
    and "map amount (passengerShares (calculateRideCost total_cost d passengerIds inc)) =
         replicate (length passengerIds)
           (js_div (Math_round (js_mul (js_div total_cost (Fin (real (length passengerIds))))
              (Fin 100))) (Fin 100))"
  using assms
  by (cases inc; auto simp: calculateRideCost_def Let_def round_cents_zero map_replicate_const
        comp_def)+

lemma split_including_driver:
  assumes "passengerIds \<noteq> []"
  shows "driverShare (calculateRideCost total_cost d passengerIds (Some True)) =
           js_div (Math_round (js_mul (js_div total_cost (Fin (real (length passengerIds + 1))))
              (Fin 100))) (Fin 100)"
    and "map amount (passengerShares (calculateRideCost total_cost d passengerIds (Some True))) =
         replicate (length passengerIds)
           (js_div (Math_round (js_mul (js_div total_cost (Fin (real (length passengerIds + 1))))
              (Fin 100))) (Fin 100))"
  using assms
  by (auto simp: calculateRideCost_def Let_def map_replicate_const comp_def)

text \<open>
  Claim C5 says that for every total cost \<open>t \<ge> 0\<close> and every non-empty passenger
  list, without the driver in the split the amounts of the passengers add up to the
  total within \<open>0.01 \<times> length passengerIds\<close>. With a total of \<open>10 ^ 15\<close> and three
  passengers the quotient, its product with 100 and the final quotient by 100 are each
  rounded to a double: every amount is \<open>5333333333333333 / 16\<close>, that is
  \<open>333333333333333.3125\<close>, and the three amounts miss the total by \<open>0.0625\<close>, which
  is more than \<open>0.03\<close>.
\<close>

theorem split_sum_counterexample:
  "driverShare (calculateRideCost (Fin (10 ^ 15)) ''d'' [''a'', ''b'', ''c''] None) = Fin 0
   \<and> map amount (passengerShares (calculateRideCost (Fin (10 ^ 15)) ''d'' [''a'', ''b'', ''c''] None))
       = map Fin [5333333333333333 / 16, 5333333333333333 / 16, 5333333333333333 / 16]
   \<and> 1 / 100 * real (length [''a'', ''b'', ''c''])
       < \<bar>sum_list [5333333333333333 / 16, 5333333333333333 / 16, 5333333333333333 / 16] - 10 ^ 15\<bar>"
proof -
  have a: "binary64 (10 ^ 15 / 3) = Fin (5333333333333333 / 16)"
    using binary64_at [of 48 "10 ^ 15 / 3" 5333333333333333] by simp
  have b: "binary64 (5333333333333333 / 16 * 100) = Fin 33333333333333332"
    using binary64_at [of 54 "5333333333333333 / 16 * 100" 8333333333333333] by simp
  have c: "binary64 (33333333333333332 / 100) = Fin (5333333333333333 / 16)"
    using binary64_at [of 48 "33333333333333332 / 100" 5333333333333333] by simp
  have "js_div (Math_round (js_mul (js_div (Fin (10 ^ 15)) (Fin 3)) (Fin 100))) (Fin 100)
          = Fin (5333333333333333 / 16)"
    using a b c by (simp add: js_ops)
  then have "map amount (passengerShares
               (calculateRideCost (Fin (10 ^ 15)) ''d'' [''a'', ''b'', ''c''] None))
             = map Fin [5333333333333333 / 16, 5333333333333333 / 16, 5333333333333333 / 16]"
    using split_excluding_driver(2) [of "[''a'', ''b'', ''c'']" None "Fin (10 ^ 15)" "''d''"]
    by (simp add: numeral_3_eq_3)
  moreover have "driverShare (calculateRideCost (Fin (10 ^ 15)) ''d'' [''a'', ''b'', ''c''] None)
                   = Fin 0"
    by (rule split_excluding_driver(1)) simp_all
  ultimately show ?thesis by simp
qed

text \<open>
  Claim C5, as amended. For a finite total cost \<open>t\<close> and a non-empty passenger list:
  when the driver is not included in the split (the flag is absent or false) the
  driver's share is 0; when the driver is included, every passenger's amount equals
  the driver's share; and for \<open>0 \<le> t \<le> 10 ^ 12\<close>, without the driver the amounts of
  the passengers add up to the total within \<open>0.01 \<times> length passengerIds\<close>, and with
  the driver the \<open>length passengerIds + 1\<close> equal shares add up to the total within
  \<open>0.01 \<times> (length passengerIds + 1)\<close>.
\<close>

theorem calculateRideCost_split:
  assumes "passengerIds \<noteq> []"
  shows "(inc \<noteq> Some True \<longrightarrow>
            driverShare (calculateRideCost (Fin t) d passengerIds inc) = Fin 0)
       \<and> (inc = Some True \<longrightarrow>
            (\<forall>s \<in> set (passengerShares (calculateRideCost (Fin t) d passengerIds inc)).
               amount s = driverShare (calculateRideCost (Fin t) d passengerIds inc)))
       \<and> (0 \<le> t \<and> t \<le> 10 ^ 12 \<longrightarrow>
            (inc \<noteq> Some True \<longrightarrow>
               (\<exists>xs. map amount (passengerShares (calculateRideCost (Fin t) d passengerIds inc))
                       = map Fin xs
                     \<and> \<bar>sum_list xs - t\<bar> \<le> 1 / 100 * real (length passengerIds)))
          \<and> (inc = Some True \<longrightarrow>
               (\<exists>a. driverShare (calculateRideCost (Fin t) d passengerIds inc) = Fin a
                     \<and> \<bar>real (length passengerIds + 1) * a - t\<bar>
                         \<le> 1 / 100 * real (length passengerIds + 1))))"
proof -
  have A: "inc \<noteq> Some True \<longrightarrow> driverShare (calculateRideCost (Fin t) d passengerIds inc) = Fin 0"
    using split_excluding_driver(1) [OF assms] by blast
  have B: "inc = Some True \<longrightarrow>
            (\<forall>s \<in> set (passengerShares (calculateRideCost (Fin t) d passengerIds inc)).
               amount s = driverShare (calculateRideCost (Fin t) d passengerIds inc))"
    using assms by (auto simp: calculateRideCost_def Let_def)
  have C: "\<exists>xs. map amount (passengerShares (calculateRideCost (Fin t) d passengerIds inc))
                       = map Fin xs
                     \<and> \<bar>sum_list xs - t\<bar> \<le> 1 / 100 * real (length passengerIds)"
    if h: "0 \<le> t \<and> t \<le> 10 ^ 12" and ninc: "inc \<noteq> Some True"
  proof -
    have "0 < length passengerIds" using assms by simp
    then obtain a
      where a: "js_div (Math_round (js_mul (js_div (Fin t) (Fin (real (length passengerIds))))
                  (Fin 100))) (Fin 100) = Fin a"
        and b: "\<bar>real (length passengerIds) * a - t\<bar> \<le> 1 / 100 * real (length passengerIds)"
      using split_close [of t "length passengerIds"] h by blast
    have "map amount (passengerShares (calculateRideCost (Fin t) d passengerIds inc))
            = map Fin (replicate (length passengerIds) a)"
      using split_excluding_driver(2) [OF assms ninc, of "Fin t" d] a by simp
    moreover have "\<bar>sum_list (replicate (length passengerIds) a) - t\<bar>
                     \<le> 1 / 100 * real (length passengerIds)"
      using b by (simp add: sum_list_replicate)
    ultimately show ?thesis by blast
  qed
  have D: "\<exists>a. driverShare (calculateRideCost (Fin t) d passengerIds inc) = Fin a
                     \<and> \<bar>real (length passengerIds + 1) * a - t\<bar>
                         \<le> 1 / 100 * real (length passengerIds + 1)"
    if h: "0 \<le> t \<and> t \<le> 10 ^ 12" and inc: "inc = Some True"
  proof -
    obtain a
      where a: "js_div (Math_round (js_mul (js_div (Fin t) (Fin (real (length passengerIds + 1))))
                  (Fin 100))) (Fin 100) = Fin a"
        and b: "\<bar>real (length passengerIds + 1) * a - t\<bar>
                  \<le> 1 / 100 * real (length passengerIds + 1)"
      using split_close [of t "length passengerIds + 1"] h by auto
    have "driverShare (calculateRideCost (Fin t) d passengerIds inc) = Fin a"
      unfolding inc split_including_driver(1) [OF assms] by (rule a)
    then show ?thesis using b by blast
  qed
  show ?thesis using A B C D by blast
qed

theorem calculateRideCost_split_witness:
  "[''a'', ''b'', ''c'', ''e''] \<noteq> [] \<and> (0::real) \<le> 100 \<and> (100::real) \<le> 10 ^ 12
   \<and> driverShare (calculateRideCost (Fin 100) ''d'' [''a'', ''b'', ''c'', ''e''] None) = Fin 0
   \<and> map amount (passengerShares (calculateRideCost (Fin 100) ''d'' [''a'', ''b'', ''c'', ''e''] None))
       = map Fin [25, 25, 25, 25]
   \<and> \<bar>sum_list [25, 25, 25, 25] - (100::real)\<bar> \<le> 1 / 100 * real (length [''a'', ''b'', ''c'', ''e''])
   \<and> map amount
        (passengerShares (calculateRideCost (Fin 100) ''d'' [''a'', ''b'', ''c'', ''e''] (Some True)))
       = map Fin [20, 20, 20, 20]
   \<and> driverShare (calculateRideCost (Fin 100) ''d'' [''a'', ''b'', ''c'', ''e''] (Some True)) = Fin 20
   \<and> \<bar>real (length [''a'', ''b'', ''c'', ''e''] + 1) * 20 - 100\<bar>
       \<le> 1 / 100 * real (length [''a'', ''b'', ''c'', ''e''] + 1)"
  using calculateRideCost_split [of "[''a'', ''b'', ''c'', ''e'']" None 100 "''d''"]
    calculateRideCost_split [of "[''a'', ''b'', ''c'', ''e'']" "Some True" 100 "''d''"]
  by (simp add: calculateRideCost_def Let_def js_ops binary64_values)























section \<open>Properties of the search and of the request to join\<close>

lemmas search_steps =
  filter_by_from_city_def filter_by_to_city_def filter_by_departure_date_def
  filter_by_max_cost_def filter_by_available_seats_def filter_by_gender_preference_def

lemma filter_by_from_city_subset: "set (filter_by_from_city c xs) \<subseteq> set xs"
  by (auto simp: filter_by_from_city_def split: option.splits)

lemma filter_by_to_city_subset: "set (filter_by_to_city c xs) \<subseteq> set xs"
  by (auto simp: filter_by_to_city_def split: option.splits)

lemma filter_by_departure_date_subset: "set (filter_by_departure_date tds c xs) \<subseteq> set xs"
  by (auto simp: filter_by_departure_date_def split: option.splits)

lemma filter_by_max_cost_subset: "set (filter_by_max_cost c xs) \<subseteq> set xs"
  by (auto simp: filter_by_max_cost_def split: option.splits)

lemma filter_by_available_seats_subset: "set (filter_by_available_seats c xs) \<subseteq> set xs"
  by (auto simp: filter_by_available_seats_def split: option.splits)

lemma filter_by_gender_preference_subset: "set (filter_by_gender_preference c xs) \<subseteq> set xs"
  by (auto simp: filter_by_gender_preference_def split: option.splits)

lemma handleSearch_subset: "set (handleSearch tds criteria rs) \<subseteq> set rs"
  unfolding handleSearch_def Let_def
  using filter_by_from_city_subset filter_by_to_city_subset filter_by_departure_date_subset
    filter_by_max_cost_subset filter_by_available_seats_subset filter_by_gender_preference_subset
  by (meson subset_trans)

lemma filter_by_gender_preference_filter:
  "filter_by_gender_preference c (filter P xs) = filter P (filter_by_gender_preference c xs)"
  by (auto simp: filter_by_gender_preference_def conj_commute split: option.splits)

lemma activeRides_offer: "r \<in> set (activeRides currentUser allRides) \<Longrightarrow> Ride_type r = Offer"
  by (simp add: activeRides_def)

text \<open>
  Claim C10. Every ride that the page loads as a candidate is an offer, and every ride
  that \<^verbatim>\<open>handleSearch\<close> returns from the candidates is an offer, whatever the
  criteria: rides of kind request are dropped when the candidates are loaded.
\<close>

theorem search_returns_offers_only:
  "(\<forall>r \<in> set (activeRides currentUser allRides). Ride_type r = Offer)
   \<and> (\<forall>r \<in> set (handleSearch tds criteria (activeRides currentUser allRides)).
         Ride_type r = Offer)"
  using handleSearch_subset [of tds criteria "activeRides currentUser allRides"]
  by (auto dest: activeRides_offer)

theorem search_returns_offers_only_witness:
  "handleSearch (\<lambda>d. []) no_criteria
     (activeRides (Some example_user)
        [example_ride, example_ride\<lparr>Ride_id := ''r2'', Ride_type := Request\<rparr>])
     = [example_ride]
   \<and> example_ride \<in> set (handleSearch (\<lambda>d. []) no_criteria
        (activeRides (Some example_user)
           [example_ride, example_ride\<lparr>Ride_id := ''r2'', Ride_type := Request\<rparr>]))
   \<and> Ride_type example_ride = Offer"
  using search_returns_offers_only [of "Some example_user"
      "[example_ride, example_ride\<lparr>Ride_id := ''r2'', Ride_type := Request\<rparr>]" "\<lambda>d. []" no_criteria]
  by (simp add: handleSearch_def search_steps activeRides_def no_criteria_def example_ride_def
        example_user_def)

text \<open>
  Claim C3 says that the seat criterion of the search compares the seats that remain,
  the capacity minus the number of passengers. \<^verbatim>\<open>handleSearch\<close> compares the stored
  field \<^verbatim>\<open>availableSeats\<close> and never reads the passengers: a ride with 2 seats and 2
  passengers is kept for a criterion of 1 seat, though no seat remains.
\<close>

theorem search_remaining_seats_counterexample:
  "handleSearch (\<lambda>d. []) (no_criteria\<lparr>criteria_availableSeats := Some 1\<rparr>)
     [example_ride\<lparr>passengers := [''u3'', ''u4'']\<rparr>]
     = [example_ride\<lparr>passengers := [''u3'', ''u4'']\<rparr>]
   \<and> filter (\<lambda>r. 1 \<le> spec_remainingSeats r) [example_ride\<lparr>passengers := [''u3'', ''u4'']\<rparr>] = []"
  by (simp add: handleSearch_def search_steps no_criteria_def example_ride_def
        spec_remainingSeats_def)

text \<open>
  Claim C3, as amended. When the criterion \<^verbatim>\<open>availableSeats\<close> is present and not 0,
  \<^verbatim>\<open>handleSearch\<close> keeps exactly the rides, among those that pass the other criteria,
  whose stored field \<^verbatim>\<open>availableSeats\<close> is at least the criterion; with no other
  criterion it keeps exactly those of the candidates.
\<close>

theorem search_available_seats:
  assumes "criteria_availableSeats criteria = Some n" and "n \<noteq> 0"
  shows "handleSearch tds criteria rs =
           filter (\<lambda>r. n \<le> availableSeats r)
             (handleSearch tds (criteria\<lparr>criteria_availableSeats := None\<rparr>) rs)
         \<and> handleSearch tds (no_criteria\<lparr>criteria_availableSeats := Some n\<rparr>) rs =
           filter (\<lambda>r. n \<le> availableSeats r) rs"
proof -
  let ?c = "criteria\<lparr>criteria_availableSeats := None\<rparr>"
  have same: "filter_by_from_city ?c = filter_by_from_city criteria"
    "filter_by_to_city ?c = filter_by_to_city criteria"
    "filter_by_departure_date tds ?c = filter_by_departure_date tds criteria"
    "filter_by_max_cost ?c = filter_by_max_cost criteria"
    "filter_by_gender_preference ?c = filter_by_gender_preference criteria"
    by (simp_all add: fun_eq_iff filter_by_from_city_def filter_by_to_city_def
          filter_by_departure_date_def filter_by_max_cost_def filter_by_gender_preference_def)
  have seats: "filter_by_available_seats criteria xs = filter (\<lambda>r. n \<le> availableSeats r) xs"
    "filter_by_available_seats ?c xs = xs" for xs
    using assms by (simp_all add: filter_by_available_seats_def)
  have one: "handleSearch tds criteria rs =
           filter (\<lambda>r. n \<le> availableSeats r) (handleSearch tds ?c rs)"
    by (simp add: handleSearch_def same seats filter_by_gender_preference_filter)
  have two: "handleSearch tds (no_criteria\<lparr>criteria_availableSeats := Some n\<rparr>) rs =
           filter (\<lambda>r. n \<le> availableSeats r) rs"
    using assms(2) by (simp add: handleSearch_def search_steps no_criteria_def)
  from one two show ?thesis by simp
qed

theorem search_available_seats_witness:
  "criteria_availableSeats (no_criteria\<lparr>criteria_availableSeats := Some 2\<rparr>) = Some 2
   \<and> (2 :: int) \<noteq> 0
   \<and> handleSearch (\<lambda>d. []) (no_criteria\<lparr>criteria_availableSeats := Some 2\<rparr>)
        [example_ride, example_ride\<lparr>Ride_id := ''r2'', availableSeats := 1\<rparr>]
      = [example_ride]"
  using search_available_seats [of "no_criteria\<lparr>criteria_availableSeats := Some 2\<rparr>" 2 "\<lambda>d. []"
      "[example_ride, example_ride\<lparr>Ride_id := ''r2'', availableSeats := 1\<rparr>]"]
  by (simp add: handleSearch_def search_steps no_criteria_def example_ride_def)

lemma join_duplicate:
  assumes "user s = Some u"
      and "find (\<lambda>r. Ride_id r = rid) (rides s) = Some found"
      and "0 < availableSeats found"
      and "\<exists>req \<in> set (rideRequests s).
             passengerId req = User_id u \<and> rideId req = rid \<and> RideRequest_status req = Pending"
  shows "handleJoinRide i1 i2 now rid s =
           s\<lparr>message := ''You have already requested to join this ride''\<rparr>"
proof -
  have "list_ex (\<lambda>req. rideId req = rid \<and> RideRequest_status req = Pending)
               (getUserRequests (User_id u) (rideRequests s))"
    using assms(4) by (auto simp: list_ex_iff getUserRequests_def)
  then show ?thesis
    using assms(1-3) by (simp add: handleJoinRide_def Let_def)
qed

lemma join_stores_nothing:
  assumes "user s = Some u"
      and "\<exists>req \<in> set (rideRequests s).
             passengerId req = User_id u \<and> rideId req = rid \<and> RideRequest_status req = Pending"
  shows "rideRequests (handleJoinRide i1 i2 now rid s) = rideRequests s
         \<and> notifications (handleJoinRide i1 i2 now rid s) = notifications s"
proof -
  have "list_ex (\<lambda>req. rideId req = rid \<and> RideRequest_status req = Pending)
               (getUserRequests (User_id u) (rideRequests s))"
    using assms(2) by (auto simp: list_ex_iff getUserRequests_def)
  then show ?thesis
    using assms(1) by (auto simp: handleJoinRide_def Let_def split: option.splits)
qed

lemma join_success:
  assumes "rideRequests (handleJoinRide i1 i2 now rid s) \<noteq> rideRequests s"
  shows "\<exists>u found.
           user (handleJoinRide i1 i2 now rid s) = Some u
           \<and> find (\<lambda>r. Ride_id r = rid) (rides (handleJoinRide i1 i2 now rid s)) = Some found
           \<and> 0 < availableSeats found
           \<and> (\<exists>req \<in> set (rideRequests (handleJoinRide i1 i2 now rid s)).
                 passengerId req = User_id u \<and> rideId req = rid
                 \<and> RideRequest_status req = Pending)
           \<and> length (rideRequests (handleJoinRide i1 i2 now rid s))
               = Suc (length (rideRequests s))
           \<and> length (notifications (handleJoinRide i1 i2 now rid s))
               = Suc (length (notifications s))"
  using assms
  by (auto simp: handleJoinRide_def Let_def split: option.splits if_splits)

text \<open>
  Claim C7. When the user already has a pending request for the ride,
  \<^verbatim>\<open>handleJoinRide\<close> stores no new request and no notification; and when the ride is
  among the loaded rides and has a seat (the two checks that come first), the call
  ends with the message that the ride was requested already and changes nothing else.
  In particular a second call for the same ride, right after a call that stored a
  request, ends with that message and stores nothing.
\<close>

theorem duplicate_request_rejected:
  "(user s = Some u
      \<and> (\<exists>req \<in> set (rideRequests s).
            passengerId req = User_id u \<and> rideId req = rid \<and> RideRequest_status req = Pending)
    \<longrightarrow> rideRequests (handleJoinRide i1 i2 now rid s) = rideRequests s
        \<and> notifications (handleJoinRide i1 i2 now rid s) = notifications s
        \<and> ((\<exists>found. find (\<lambda>r. Ride_id r = rid) (rides s) = Some found \<and> 0 < availableSeats found)
             \<longrightarrow> handleJoinRide i1 i2 now rid s =
                    s\<lparr>message := ''You have already requested to join this ride''\<rparr>))
   \<and> (rideRequests (handleJoinRide i1 i2 now rid s) \<noteq> rideRequests s
    \<longrightarrow> handleJoinRide j1 j2 later rid (handleJoinRide i1 i2 now rid s) =
          (handleJoinRide i1 i2 now rid s)
            \<lparr>message := ''You have already requested to join this ride''\<rparr>)"
proof (rule conjI)
  show "user s = Some u
      \<and> (\<exists>req \<in> set (rideRequests s).
            passengerId req = User_id u \<and> rideId req = rid \<and> RideRequest_status req = Pending)
    \<longrightarrow> rideRequests (handleJoinRide i1 i2 now rid s) = rideRequests s
        \<and> notifications (handleJoinRide i1 i2 now rid s) = notifications s
        \<and> ((\<exists>found. find (\<lambda>r. Ride_id r = rid) (rides s) = Some found \<and> 0 < availableSeats found)
             \<longrightarrow> handleJoinRide i1 i2 now rid s =
                    s\<lparr>message := ''You have already requested to join this ride''\<rparr>)"
    using join_stores_nothing [of s u rid i1 i2 now] join_duplicate [of s u rid _ i1 i2 now]
    by blast
next
  show "rideRequests (handleJoinRide i1 i2 now rid s) \<noteq> rideRequests s
    \<longrightarrow> handleJoinRide j1 j2 later rid (handleJoinRide i1 i2 now rid s) =
          (handleJoinRide i1 i2 now rid s)
            \<lparr>message := ''You have already requested to join this ride''\<rparr>"
  proof
    assume "rideRequests (handleJoinRide i1 i2 now rid s) \<noteq> rideRequests s"
    from join_success [OF this] obtain u found where
      "user (handleJoinRide i1 i2 now rid s) = Some u"
      "find (\<lambda>r. Ride_id r = rid) (rides (handleJoinRide i1 i2 now rid s)) = Some found"
      "0 < availableSeats found"
      "\<exists>req \<in> set (rideRequests (handleJoinRide i1 i2 now rid s)).
                 passengerId req = User_id u \<and> rideId req = rid
                 \<and> RideRequest_status req = Pending"
      by blast
    then show "handleJoinRide j1 j2 later rid (handleJoinRide i1 i2 now rid s) =
          (handleJoinRide i1 i2 now rid s)
            \<lparr>message := ''You have already requested to join this ride''\<rparr>"
      by (rule join_duplicate)
  qed
qed

theorem duplicate_request_rejected_witness:
  "user (handleJoinRide ''q1'' ''n1'' 0 ''r1'' example_state) = Some example_user
   \<and> message (handleJoinRide ''q1'' ''n1'' 0 ''r1'' example_state)
       = ''Ride request sent! The driver will be notified.''
   \<and> rideRequests (handleJoinRide ''q1'' ''n1'' 0 ''r1'' example_state)
       \<noteq> rideRequests example_state
   \<and> handleJoinRide ''q2'' ''n2'' 1 ''r1'' (handleJoinRide ''q1'' ''n1'' 0 ''r1'' example_state)
       = (handleJoinRide ''q1'' ''n1'' 0 ''r1'' example_state)
           \<lparr>message := ''You have already requested to join this ride''\<rparr>"
proof -
  have first: "user (handleJoinRide ''q1'' ''n1'' 0 ''r1'' example_state) = Some example_user
   \<and> message (handleJoinRide ''q1'' ''n1'' 0 ''r1'' example_state)
       = ''Ride request sent! The driver will be notified.''
   \<and> rideRequests (handleJoinRide ''q1'' ''n1'' 0 ''r1'' example_state)
       \<noteq> rideRequests example_state"
    by (simp add: handleJoinRide_def getUserRequests_def example_state_def example_ride_def
          example_user_def Let_def)
  with duplicate_request_rejected [of example_state _ "''r1''" "''q1''" "''n1''" 0
      "''q2''" "''n2''" 1]
  show ?thesis by simp
qed

section \<open>Properties of the approval of a request\<close>

lemma list_ex_find: "list_ex P xs \<Longrightarrow> find P xs \<noteq> None"
  by (auto simp: find_None_iff list_ex_iff)

lemma approve_not_true:
  "fst (approve_ride_request i db) \<noteq> Inr True \<Longrightarrow> snd (approve_ride_request i db) = db"
  by (auto simp: approve_ride_request_def Let_def split: option.splits if_splits)

lemma approve_true_raw:
  assumes "fst (approve_ride_request i db) = Inr True"
  shows "\<exists>rr r.
           find (\<lambda>rr. rr_id rr = i \<and> rr_status rr = Pending \<and>
                       list_ex (\<lambda>r. r_id r = rr_ride_id rr) (db_rides db))
                (db_ride_requests db) = Some rr
           \<and> find (\<lambda>r. r_id r = rr_ride_id rr) (db_rides db) = Some r
           \<and> sql_less (Some (r_available_seats r - int (passenger_count db (r_id r))))
                 (rr_requested_seats rr) \<noteq> Some True
           \<and> db_rides (snd (approve_ride_request i db)) = db_rides db
           \<and> db_ride_requests (snd (approve_ride_request i db)) =
               map (\<lambda>rr. if rr_id rr = i then rr\<lparr>rr_status := Approved\<rparr> else rr)
                   (db_ride_requests db)
           \<and> db_ride_passengers (snd (approve_ride_request i db)) =
               db_ride_passengers db @
                 [\<lparr>rp_ride_id = rr_ride_id rr, rp_passenger_id = rr_passenger_id rr\<rparr>]"
proof (cases "find (\<lambda>rr. rr_id rr = i \<and> rr_status rr = Pending \<and>
                       list_ex (\<lambda>r. r_id r = rr_ride_id rr) (db_rides db))
                (db_ride_requests db)")
  case None
  with assms show ?thesis by (simp add: approve_ride_request_def)
next
  case (Some rr)
  then have "list_ex (\<lambda>r. r_id r = rr_ride_id rr) (db_rides db)"
    by (auto simp: find_Some_iff)
  then obtain r where r: "find (\<lambda>r. r_id r = rr_ride_id rr) (db_rides db) = Some r"
    using list_ex_find by fastforce
  then have rid: "r_id r = rr_ride_id rr" by (auto simp: find_Some_iff)
  show ?thesis
    using assms Some r rid
    by (auto simp: approve_ride_request_def Let_def passenger_count_def create_notification_def
             split: if_splits)
qed

lemma approve_true:
  assumes "fst (approve_ride_request i db) = Inr True"
  obtains rr r where
    "find (\<lambda>rr. rr_id rr = i \<and> rr_status rr = Pending \<and>
                 list_ex (\<lambda>r. r_id r = rr_ride_id rr) (db_rides db))
          (db_ride_requests db) = Some rr"
    and "find (\<lambda>r. r_id r = rr_ride_id rr) (db_rides db) = Some r"
    and "sql_less (Some (r_available_seats r - int (passenger_count db (r_id r))))
           (rr_requested_seats rr) \<noteq> Some True"
    and "db_rides (snd (approve_ride_request i db)) = db_rides db"
    and "db_ride_requests (snd (approve_ride_request i db)) =
           map (\<lambda>rr. if rr_id rr = i then rr\<lparr>rr_status := Approved\<rparr> else rr)
               (db_ride_requests db)"
    and "db_ride_passengers (snd (approve_ride_request i db)) =
           db_ride_passengers db @
             [\<lparr>rp_ride_id = rr_ride_id rr, rp_passenger_id = rr_passenger_id rr\<rparr>]"
  using approve_true_raw [OF assms] by (elim exE conjE)

lemma approve_find_none:
  assumes "find (\<lambda>rr. rr_id rr = i \<and> rr_status rr = Pending \<and>
                       list_ex (\<lambda>r. r_id r = rr_ride_id rr) (db_rides db))
                (db_ride_requests db) = None"
  shows "approve_ride_request i db = (Inr False, db)"
  using assms by (simp add: approve_ride_request_def)

lemma find_pending_after_approval:
  "find (\<lambda>rr. rr_id rr = i \<and> rr_status rr = Pending \<and> Q rr)
        (map (\<lambda>rr. if rr_id rr = i then rr\<lparr>rr_status := Approved\<rparr> else rr) xs) = None"
  by (induction xs) auto

lemma distinct_key_eq:
  assumes "distinct (map k xs)" and "x \<in> set xs" and "y \<in> set xs" and "k x = k y"
  shows "x = y"
  using assms by (meson distinct_map inj_on_def)

text \<open>
  When the requested seats of a pending request are not null and exceed the seats
  left in its ride, the call returns false and leaves the database as it was.
\<close>

lemma approve_refuses_when_full:
  assumes "find (\<lambda>rr. rr_id rr = i \<and> rr_status rr = Pending \<and>
                       list_ex (\<lambda>r. r_id r = rr_ride_id rr) (db_rides db))
                (db_ride_requests db) = Some rr"
      and "find (\<lambda>r. r_id r = rr_ride_id rr) (db_rides db) = Some r"
      and "rr_requested_seats rr = Some n"
      and "r_available_seats r - int (passenger_count db (r_id r)) < n"
  shows "approve_ride_request i db = (Inr False, db)"
  using assms by (simp add: approve_ride_request_def Let_def passenger_count_def)

lemma approved_rows_keep:
  "list_all (\<lambda>rr. P (rr_requested_seats rr))
     (map (\<lambda>rr. if rr_id rr = i then rr\<lparr>rr_status := Approved\<rparr> else rr) xs)
   = list_all (\<lambda>rr. P (rr_requested_seats rr)) xs"
  by (induction xs) auto

lemma approve_keeps_schema:
  assumes "schema_constraints db"
  shows "schema_constraints (snd (approve_ride_request i db))"
proof (cases "fst (approve_ride_request i db) = Inr True")
  case False
  then show ?thesis using assms by (simp add: approve_not_true)
next
  case True
  have ids: "rr_id \<circ> (\<lambda>rr. if rr_id rr = i then rr\<lparr>rr_status := Approved\<rparr> else rr) = rr_id"
    by (auto simp: fun_eq_iff)
  from True obtain rr r where
    "db_rides (snd (approve_ride_request i db)) = db_rides db"
    and "db_ride_requests (snd (approve_ride_request i db)) =
           map (\<lambda>rr. if rr_id rr = i then rr\<lparr>rr_status := Approved\<rparr> else rr)
               (db_ride_requests db)"
    by (rule approve_true)
  then show ?thesis
    using assms
    by (simp add: schema_constraints_def ids
          approved_rows_keep [where P = "\<lambda>s. case s of None \<Rightarrow> True | Some n \<Rightarrow> 0 < n"])
qed

lemma approve_keeps_not_null:
  assumes "requested_seats_not_null db"
  shows "requested_seats_not_null (snd (approve_ride_request i db))"
proof (cases "fst (approve_ride_request i db) = Inr True")
  case False
  then show ?thesis using assms by (simp add: approve_not_true)
next
  case True
  from True obtain rr r where
    eq: "db_ride_requests (snd (approve_ride_request i db)) =
           map (\<lambda>rr. if rr_id rr = i then rr\<lparr>rr_status := Approved\<rparr> else rr)
               (db_ride_requests db)"
    by (rule approve_true)
  show ?thesis
    using assms
    unfolding requested_seats_not_null_def eq approved_rows_keep [where P = "\<lambda>s. s \<noteq> None"]
    by assumption
qed

lemma approve_keeps_capacity:
  assumes "schema_constraints db" and "requested_seats_not_null db" and "capacity_respected db"
  shows "capacity_respected (snd (approve_ride_request i db))"
proof (cases "fst (approve_ride_request i db) = Inr True")
  case False
  then show ?thesis using assms by (simp add: approve_not_true)
next
  case True
  from True obtain rr r where
    rr: "find (\<lambda>rr. rr_id rr = i \<and> rr_status rr = Pending \<and>
                     list_ex (\<lambda>r. r_id r = rr_ride_id rr) (db_rides db))
              (db_ride_requests db) = Some rr"
    and r: "find (\<lambda>r. r_id r = rr_ride_id rr) (db_rides db) = Some r"
    and room: "sql_less (Some (r_available_seats r - int (passenger_count db (r_id r))))
                 (rr_requested_seats rr) \<noteq> Some True"
    and rides': "db_rides (snd (approve_ride_request i db)) = db_rides db"
    and pass': "db_ride_passengers (snd (approve_ride_request i db)) =
           db_ride_passengers db @
             [\<lparr>rp_ride_id = rr_ride_id rr, rp_passenger_id = rr_passenger_id rr\<rparr>]"
    by (rule approve_true)
  have rr_in: "rr \<in> set (db_ride_requests db)"
    using rr by (auto simp: find_Some_iff)
  have r_in: "r \<in> set (db_rides db)" and r_id: "r_id r = rr_ride_id rr"
    using r by (auto simp: find_Some_iff)
  obtain n where n: "rr_requested_seats rr = Some n"
    using assms(2) rr_in by (auto simp: requested_seats_not_null_def list_all_iff)
  have pos: "0 < n"
    using assms(1) rr_in n by (auto simp: schema_constraints_def list_all_iff)
  have room': "n \<le> r_available_seats r - int (passenger_count db (r_id r))"
    using room n by simp
  have keys: "distinct (map r_id (db_rides db))"
    using assms(1) by (simp add: schema_constraints_def)
  have "int (passenger_count (snd (approve_ride_request i db)) (r_id x)) \<le> r_available_seats x"
    if x: "x \<in> set (db_rides db)" for x
  proof (cases "r_id x = rr_ride_id rr")
    case True
    then have "x = r"
      using distinct_key_eq [OF keys x r_in] r_id by simp
    then show ?thesis
      using room' pos r_id by (simp add: pass' passenger_count_def)
  next
    case False
    then have "passenger_count (snd (approve_ride_request i db)) (r_id x)
                 = passenger_count db (r_id x)"
      by (simp add: pass' passenger_count_def)
    then show ?thesis
      using assms(3) x by (simp add: capacity_respected_def list_all_iff)
  qed
  then show ?thesis
    by (simp add: capacity_respected_def list_all_iff rides')
qed

text \<open>
  On a database that satisfies the constraints of the schema, in which no request has
  a null \<^verbatim>\<open>requested_seats\<close> and no ride has more passengers than seats, no ride has
  more passengers than seats after any sequence of calls of
  \<^verbatim>\<open>approve_ride_request\<close>.
\<close>

lemma approve_all_keeps:
  "schema_constraints db \<Longrightarrow> requested_seats_not_null db \<Longrightarrow> capacity_respected db \<Longrightarrow>
   schema_constraints (approve_all ids db) \<and> requested_seats_not_null (approve_all ids db)
   \<and> capacity_respected (approve_all ids db)"
proof (induction ids arbitrary: db)
  case Nil
  then show ?case by simp
next
  case (Cons i ids)
  then show ?case
    by (simp add: approve_keeps_schema approve_keeps_not_null approve_keeps_capacity)
qed

text \<open>
  Claim C1 says that after any sequence of approvals no ride has more passengers than
  seats, and that a call for a request that asks for more seats than are left returns
  false and changes nothing. The column \<^verbatim>\<open>requested_seats\<close> of ride_requests is
  declared without NOT NULL, and its check \<^verbatim>\<open>requested_seats > 0\<close> passes on null.
  On \<^verbatim>\<open>full_ride_db\<close> the ride \<^verbatim>\<open>r1\<close> has one seat and one passenger, and the
  pending request \<^verbatim>\<open>q2\<close> has a null \<^verbatim>\<open>requested_seats\<close>: the database satisfies
  the constraints of the schema and the capacity of every ride; the comparison
  \<^verbatim>\<open>available_seats_count < request_record.requested_seats\<close> is null, the branch
  that returns false is not taken, and the call returns true and leaves the ride
  with two passengers for its one seat.
\<close>

theorem approve_null_requested_seats:
  "schema_constraints full_ride_db \<and> capacity_respected full_ride_db
   \<and> fst (approve_ride_request ''q2'' full_ride_db) = Inr True
   \<and> db_ride_passengers (snd (approve_ride_request ''q2'' full_ride_db))
       = [\<lparr>rp_ride_id = ''r1'', rp_passenger_id = ''u2''\<rparr>,
          \<lparr>rp_ride_id = ''r1'', rp_passenger_id = ''u3''\<rparr>]
   \<and> map rr_status (db_ride_requests (snd (approve_ride_request ''q2'' full_ride_db)))
       = [Approved]
   \<and> passenger_count (snd (approve_ride_request ''q2'' full_ride_db)) ''r1'' = 2
   \<and> map r_available_seats (db_rides (snd (approve_ride_request ''q2'' full_ride_db))) = [1]
   \<and> \<not> capacity_respected (snd (approve_ride_request ''q2'' full_ride_db))"
proof -
  have s: "schema_constraints full_ride_db"
    by (simp add: schema_constraints_def full_ride_db_def)
  have c: "capacity_respected full_ride_db"
    by (simp add: capacity_respected_def passenger_count_def full_ride_db_def)
  have one: "approve_ride_request ''q2'' full_ride_db =
    (Inr True,
     full_ride_db\<lparr>db_ride_requests :=
         [\<lparr>rr_id = ''q2'', rr_passenger_id = ''u3'', rr_ride_id = ''r1'', rr_status = Approved,
           rr_message = None, rr_requested_seats = None\<rparr>],
       db_ride_passengers := [\<lparr>rp_ride_id = ''r1'', rp_passenger_id = ''u2''\<rparr>,
                              \<lparr>rp_ride_id = ''r1'', rp_passenger_id = ''u3''\<rparr>],
       db_notifications :=
         [\<lparr>n_user_id = ''u3'', n_type = N_ride_approved, n_title = ''Ride Request Approved!'',
           n_message = ''Your request to join the ride has been approved.'',
           n_data = [(''ride_id'', ''r1'')], n_is_read = False\<rparr>]\<rparr>)"
    by (simp add: approve_ride_request_def create_notification_def full_ride_db_def)
  have p: "passenger_count (snd (approve_ride_request ''q2'' full_ride_db)) ''r1'' = 2"
    unfolding one by (simp add: passenger_count_def)
  have a: "map r_available_seats (db_rides (snd (approve_ride_request ''q2'' full_ride_db))) = [1]"
    unfolding one by (simp add: full_ride_db_def)
  have n: "\<not> capacity_respected (snd (approve_ride_request ''q2'' full_ride_db))"
    unfolding one by (simp add: capacity_respected_def passenger_count_def full_ride_db_def)
  show ?thesis
    using s c p a n by (simp add: one)
qed

text \<open>
  Claim C8. \<^verbatim>\<open>approve_ride_request\<close> acts on pending requests only. When no request
  with the given id is pending (it is rejected, or approved already) the call returns
  false and changes nothing; after a call that approved a request, a second call for
  the same id returns false and changes nothing; and, request ids being the primary
  key, a call leaves every request as it was or turns a pending request into an
  approved one.
\<close>

theorem approve_only_pending:
  "(\<not> list_ex (\<lambda>rr. rr_id rr = i \<and> rr_status rr = Pending) (db_ride_requests db)
      \<longrightarrow> approve_ride_request i db = (Inr False, db))
   \<and> (fst (approve_ride_request i db) = Inr True
      \<longrightarrow> approve_ride_request i (snd (approve_ride_request i db))
            = (Inr False, snd (approve_ride_request i db)))
   \<and> (distinct (map rr_id (db_ride_requests db))
      \<longrightarrow> list_all2 (\<lambda>old new. new = old \<or>
                         (rr_status old = Pending \<and> new = old\<lparr>rr_status := Approved\<rparr>))
            (db_ride_requests db) (db_ride_requests (snd (approve_ride_request i db))))"
proof (intro conjI impI)
  assume none: "\<not> list_ex (\<lambda>rr. rr_id rr = i \<and> rr_status rr = Pending) (db_ride_requests db)"
  then have "find (\<lambda>rr. rr_id rr = i \<and> rr_status rr = Pending \<and>
                       list_ex (\<lambda>r. r_id r = rr_ride_id rr) (db_rides db))
                (db_ride_requests db) = None"
    by (auto simp: find_None_iff list_ex_iff)
  then show "approve_ride_request i db = (Inr False, db)"
    by (rule approve_find_none)
next
  assume ok: "fst (approve_ride_request i db) = Inr True"
  from ok obtain rr r where
    db': "db_ride_requests (snd (approve_ride_request i db)) =
            map (\<lambda>rr. if rr_id rr = i then rr\<lparr>rr_status := Approved\<rparr> else rr)
                (db_ride_requests db)"
    by (rule approve_true)
  have "find (\<lambda>rr. rr_id rr = i \<and> rr_status rr = Pending \<and>
                list_ex (\<lambda>r. r_id r = rr_ride_id rr)
                        (db_rides (snd (approve_ride_request i db))))
             (db_ride_requests (snd (approve_ride_request i db))) = None"
    by (simp only: db' find_pending_after_approval)
  then show "approve_ride_request i (snd (approve_ride_request i db))
            = (Inr False, snd (approve_ride_request i db))"
    by (rule approve_find_none)
next
  assume keys: "distinct (map rr_id (db_ride_requests db))"
  show "list_all2 (\<lambda>old new. new = old \<or>
                         (rr_status old = Pending \<and> new = old\<lparr>rr_status := Approved\<rparr>))
            (db_ride_requests db) (db_ride_requests (snd (approve_ride_request i db)))"
  proof (cases "fst (approve_ride_request i db) = Inr True")
    case False
    then show ?thesis by (simp add: approve_not_true list_all2_same)
  next
    case True
    from True obtain rr r where
      rr: "find (\<lambda>rr. rr_id rr = i \<and> rr_status rr = Pending \<and>
                     list_ex (\<lambda>r. r_id r = rr_ride_id rr) (db_rides db))
              (db_ride_requests db) = Some rr"
      and db': "db_ride_requests (snd (approve_ride_request i db)) =
            map (\<lambda>rr. if rr_id rr = i then rr\<lparr>rr_status := Approved\<rparr> else rr)
                (db_ride_requests db)"
      by (rule approve_true)
    have rr_in: "rr \<in> set (db_ride_requests db)" and rr_id: "rr_id rr = i"
      and rr_p: "rr_status rr = Pending"
      using rr by (auto simp: find_Some_iff)
    have "rr_status x = Pending" if "x \<in> set (db_ride_requests db)" and "rr_id x = i" for x
      using distinct_key_eq [OF keys that(1) rr_in] that(2) rr_id rr_p by simp
    then show ?thesis
      unfolding db' by (auto simp: list_all2_map2 list_all2_same)
  qed
qed

theorem approve_only_pending_witness:
  "distinct (map rr_id (db_ride_requests example_db))
   \<and> fst (approve_ride_request ''q1'' example_db) = Inr True
   \<and> approve_ride_request ''q1'' (snd (approve_ride_request ''q1'' example_db))
       = (Inr False, snd (approve_ride_request ''q1'' example_db))
   \<and> map rr_status (db_ride_requests (snd (approve_ride_request ''q1'' example_db)))
       = [Approved, Pending]
   \<and> approve_ride_request ''q1''
        (example_db\<lparr>db_ride_requests :=
           [\<lparr>rr_id = ''q1'', rr_passenger_id = ''u2'', rr_ride_id = ''r1'', rr_status = Rejected,
             rr_message = None, rr_requested_seats = Some 1\<rparr>]\<rparr>)
       = (Inr False,
          example_db\<lparr>db_ride_requests :=
           [\<lparr>rr_id = ''q1'', rr_passenger_id = ''u2'', rr_ride_id = ''r1'', rr_status = Rejected,
             rr_message = None, rr_requested_seats = Some 1\<rparr>]\<rparr>)"
proof -
  have one: "fst (approve_ride_request ''q1'' example_db) = Inr True"
    by (simp add: approve_ride_request_def create_notification_def example_db_def)
  have st: "map rr_status (db_ride_requests (snd (approve_ride_request ''q1'' example_db)))
       = [Approved, Pending]"
    by (simp add: approve_ride_request_def create_notification_def example_db_def)
  have rej: "\<not> list_ex (\<lambda>rr. rr_id rr = ''q1'' \<and> rr_status rr = Pending)
       (db_ride_requests (example_db\<lparr>db_ride_requests :=
           [\<lparr>rr_id = ''q1'', rr_passenger_id = ''u2'', rr_ride_id = ''r1'', rr_status = Rejected,
             rr_message = None, rr_requested_seats = Some 1\<rparr>]\<rparr>))"
    by simp
  have keys: "distinct (map rr_id (db_ride_requests example_db))"
    by (simp add: example_db_def)
  show ?thesis
    using keys approve_only_pending [of "''q1''" example_db]
      approve_only_pending [of "''q1''" "example_db\<lparr>db_ride_requests :=
           [\<lparr>rr_id = ''q1'', rr_passenger_id = ''u2'', rr_ride_id = ''r1'', rr_status = Rejected,
             rr_message = None, rr_requested_seats = Some 1\<rparr>]\<rparr>"]
      one st rej
    by blast
qed

section \<open>Properties of the ratings\<close>












end
